theory Spec2Isabelle
  imports Main "HOL-Library.Word"
begin

section \<open>JFR checkpoint constant serializers (jfrType.cpp)\<close>

text \<open>
  A shallow embedding of \<^verbatim>\<open>src/share/vm/jfr/recorder/checkpoint/types/jfrType.cpp\<close>:
  the thread closure and its constructor/destructor, the thread-set serializer, the static
  enumeration tables and the single-thread serializer.
\<close>

subsection \<open>Machine types\<close>

type_synonym u4 = "32 word"
type_synonym traceid = "64 word"

text \<open>Fatal, non-recoverable outcomes: a failed \<^verbatim>\<open>assert\<close> (debug builds) and
  \<^verbatim>\<open>ShouldNotReachHere()\<close>.\<close>

datatype error = Assert_failed | Should_not_reach_here

text \<open>The preprocessor symbols the file branches on.\<close>

record build =
  ASSERT :: bool
  INCLUDE_ALL_GCS :: bool
  COMPILER2 :: bool

subsection \<open>The checkpoint writer\<close>

text \<open>
  Modelled from the spec: the class \<^verbatim>\<open>JfrCheckpointWriter\<close>
  (\<^verbatim>\<open>jfrCheckpointWriter.hpp\<close>) is not part of the sources; the spec describes it as an
  append-only sink with a movable cursor, offset-addressable count patching and a
  cursor-only context for rollback. The byte encoding of a field belongs to that class, so
  the buffer is kept at the granularity of written fields: offsets and the cursor count
  fields, and one field is what a single \<^verbatim>\<open>write\<close>, \<^verbatim>\<open>write_key\<close>,
  \<^verbatim>\<open>write_count\<close> or \<^verbatim>\<open>reserve(sizeof(u4))\<close> occupies.
\<close>

datatype cell =
    Uninit
  | Count u4
  | Key traceid
  | Str "string option"
  | Id traceid
  | Group_chain traceid

record JfrCheckpointWriter =
  buffer :: "nat \<Rightarrow> cell"
  cursor :: nat

type_synonym JfrCheckpointContext = nat

definition context_of :: "JfrCheckpointWriter \<Rightarrow> JfrCheckpointContext" where
  "context_of w = cursor w"

definition set_context :: "JfrCheckpointContext \<Rightarrow> JfrCheckpointWriter \<Rightarrow> JfrCheckpointWriter" where
  "set_context c w = w\<lparr>cursor := c\<rparr>"

text \<open>\<^verbatim>\<open>reserve(sizeof(u4))\<close>: the slot of one count field, content left as it is.\<close>

definition reserve :: "JfrCheckpointWriter \<Rightarrow> nat \<times> JfrCheckpointWriter" where
  "reserve w = (cursor w, w\<lparr>cursor := Suc (cursor w)\<rparr>)"

definition write_cell :: "cell \<Rightarrow> JfrCheckpointWriter \<Rightarrow> JfrCheckpointWriter" where
  "write_cell c w = w\<lparr>buffer := (buffer w)(cursor w := c), cursor := Suc (cursor w)\<rparr>"

definition write_key :: "traceid \<Rightarrow> JfrCheckpointWriter \<Rightarrow> JfrCheckpointWriter" where
  "write_key k w = write_cell (Key k) w"

definition write_count :: "u4 \<Rightarrow> JfrCheckpointWriter \<Rightarrow> JfrCheckpointWriter" where
  "write_count n w = write_cell (Count n) w"

definition write_count_at :: "u4 \<Rightarrow> nat \<Rightarrow> JfrCheckpointWriter \<Rightarrow> JfrCheckpointWriter" where
  "write_count_at n position w = w\<lparr>buffer := (buffer w)(position := Count n)\<rparr>"

text \<open>The fields present between an offset and the cursor, and everything before the cursor.\<close>

definition cells_from :: "nat \<Rightarrow> JfrCheckpointWriter \<Rightarrow> cell list" where
  "cells_from p w = map (buffer w) [p ..< cursor w]"

definition contents :: "JfrCheckpointWriter \<Rightarrow> cell list" where
  "contents w = cells_from 0 w"

text \<open>Reading a pool back: the count field at its head, and one entry per key written after it.\<close>

fun is_Key :: "cell \<Rightarrow> bool" where
  "is_Key (Key k) = True"
| "is_Key c = False"

fun pool_count :: "cell list \<Rightarrow> u4 option" where
  "pool_count (Count n # cs) = Some n"
| "pool_count cs = None"

definition pool_entries :: "cell list \<Rightarrow> nat" where
  "pool_entries cs = length (filter is_Key (tl cs))"

definition pool_keys :: "cell list \<Rightarrow> traceid list" where
  "pool_keys cs = concat (map (\<lambda>c. case c of Key k \<Rightarrow> [k] | _ \<Rightarrow> []) (tl cs))"

subsection \<open>Threads\<close>

text \<open>
  What the absent helpers \<^verbatim>\<open>JfrThreadId::jfr_id\<close>, \<^verbatim>\<open>JfrThreadName::name\<close>,
  \<^verbatim>\<open>JfrThreadId::os_id\<close>, \<^verbatim>\<open>Thread::is_Java_thread\<close> and
  \<^verbatim>\<open>JfrThreadId::id\<close> return for a thread is kept as the fields of the thread, next to
  the address \<open>addr\<close> of the \<^verbatim>\<open>Thread\<close> object that a \<^verbatim>\<open>Thread*\<close> compares by; a
  \<^verbatim>\<open>const char*\<close> is a \<open>string option\<close> with \<open>None\<close> for \<^verbatim>\<open>NULL\<close>.
  \<^verbatim>\<open>JfrThreadGroup::thread_group_id(subject, resolver)\<close> is a parameter \<open>tgid\<close>.
  A \<^verbatim>\<open>Thread*\<close> argument is a thread: the \<^verbatim>\<open>NULL\<close> pointer, which the assertions
  \<^verbatim>\<open>t != NULL\<close> and \<^verbatim>\<open>_thread != NULL\<close> exclude, has no counterpart. A failed assertion
  ends the run, so \<^verbatim>\<open>do_thread\<close> decides \<^verbatim>\<open>name != NULL\<close> before it builds the state
  it would return.
\<close>

record thread =
  addr :: nat
  jfr_id :: traceid
  name :: "string option"
  os_id :: traceid
  is_Java_thread :: bool
  java_id :: traceid

record JfrCheckpointThreadClosure =
  tc_writer :: JfrCheckpointWriter
  tc_ctx :: JfrCheckpointContext
  tc_count_position :: nat
  tc_curthread :: thread
  tc_count :: u4

text \<open>Constructor: members are initialised in declaration order, the context before the
  count slot is reserved.\<close>

definition new_closure :: "thread \<Rightarrow> JfrCheckpointWriter \<Rightarrow> JfrCheckpointThreadClosure" where
  "new_closure current w =
     (let c = context_of w;
          (p, w') = reserve w
      in \<lparr>tc_writer = w', tc_ctx = c, tc_count_position = p,
          tc_curthread = current, tc_count = 0\<rparr>)"

text \<open>Destructor.\<close>

definition finish_closure :: "JfrCheckpointThreadClosure \<Rightarrow> JfrCheckpointWriter" where
  "finish_closure tc =
     (if tc_count tc = 0 then set_context (tc_ctx tc) (tc_writer tc)
      else write_count_at (tc_count tc) (tc_count_position tc) (tc_writer tc))"

definition do_thread ::
  "build \<Rightarrow> (thread \<Rightarrow> thread \<Rightarrow> traceid) \<Rightarrow> thread \<Rightarrow> JfrCheckpointThreadClosure
     \<Rightarrow> error + JfrCheckpointThreadClosure" where
  "do_thread b tgid t tc =
     (if ASSERT b \<and> name t = None then Inl Assert_failed
      else
        let w1 = write_key (jfr_id t) (tc_writer tc);
            w2 = write_cell (Str (name t)) w1;
            w3 = write_cell (Id (os_id t)) w2;
            w6 = (if is_Java_thread t
                  then write_cell (Id (tgid t (tc_curthread tc)))
                         (write_cell (Id (java_id t)) (write_cell (Str (name t)) w3))
                  else write_cell (Id 0) (write_cell (Id 0) (write_cell (Str None) w3)))
        in Inr (tc\<lparr>tc_count := tc_count tc + 1, tc_writer := w6\<rparr>))"

subsection \<open>The thread-set serializer\<close>

text \<open>
  The calling thread's \<^verbatim>\<open>skip_rank_order_check\<close> flag, and a log of the lock, flag and
  visit events in the order the statements and destructors run (latest last).
\<close>

datatype event =
    Reserve_count
  | Lock_Threads_lock
  | Unlock_Threads_lock
  | Set_skip_rank_order_check bool
  | Do_thread thread
  | Finish_closure

record env =
  skip_rank_order_check :: bool
  trace :: "event list"

definition log :: "event \<Rightarrow> env \<Rightarrow> env" where
  "log e s = s\<lparr>trace := trace s @ [e]\<rparr>"

definition set_skip_rank_order_check :: "bool \<Rightarrow> env \<Rightarrow> env" where
  "set_skip_rank_order_check v s =
     log (Set_skip_rank_order_check v) (s\<lparr>skip_rank_order_check := v\<rparr>)"

text \<open>One \<^verbatim>\<open>while (it.has_next()) tc.do_thread(it.next())\<close> loop over an iterator's
  elements.\<close>

fun do_threads ::
  "build \<Rightarrow> (thread \<Rightarrow> thread \<Rightarrow> traceid) \<Rightarrow> thread list
     \<Rightarrow> JfrCheckpointThreadClosure \<times> env \<Rightarrow> error + JfrCheckpointThreadClosure \<times> env" where
  "do_threads b tgid [] (tc, s) = Inr (tc, s)"
| "do_threads b tgid (t # ts) (tc, s) =
     (case do_thread b tgid t tc of
        Inl e \<Rightarrow> Inl e
      | Inr tc' \<Rightarrow> do_threads b tgid ts (tc', log (Do_thread t) s))"

text \<open>
  \<^verbatim>\<open>JfrThreadConstantSet::serialize\<close>. \<open>current\<close> is \<^verbatim>\<open>Thread::current()\<close>,
  \<open>javathreads\<close> and \<open>nonjavathreads\<close> are what the two iterators yield. The locals are
  destroyed in reverse order of construction: the lock is released before the closure's
  destructor runs.
\<close>

definition JfrThreadConstantSet_serialize ::
  "build \<Rightarrow> (thread \<Rightarrow> thread \<Rightarrow> traceid) \<Rightarrow> thread \<Rightarrow> thread list \<Rightarrow> thread list
     \<Rightarrow> JfrCheckpointWriter \<times> env \<Rightarrow> error + JfrCheckpointWriter \<times> env" where
  "JfrThreadConstantSet_serialize b tgid current javathreads nonjavathreads ws =
     (let (writer, s) = ws;
          tc = new_closure current writer;
          s1 = log Reserve_count s;
          s2 = log Lock_Threads_lock s1;
          s3 = (if ASSERT b then set_skip_rank_order_check True s2 else s2)
      in case do_threads b tgid javathreads (tc, s3) of
           Inl e \<Rightarrow> Inl e
         | Inr (tc1, s4) \<Rightarrow>
             (case do_threads b tgid nonjavathreads (tc1, s4) of
                Inl e \<Rightarrow> Inl e
              | Inr (tc2, s5) \<Rightarrow>
                  let s6 = (if ASSERT b then set_skip_rank_order_check False s5 else s5);
                      s7 = log Unlock_Threads_lock s6;
                      s8 = log Finish_closure s7
                  in Inr (finish_closure tc2, s8)))"

subsection \<open>The static enumeration tables\<close>

text \<open>
  The loop \<^verbatim>\<open>for (u4 i = 0; i < nof_entries; ++i) { write_key(i); write(to_string(i)); }\<close>
  from counter value \<open>i\<close> on. A name lookup yields a \<^verbatim>\<open>const char*\<close> or is fatal.
\<close>

function table_loop ::
  "u4 \<Rightarrow> u4 \<Rightarrow> (u4 \<Rightarrow> error + string option) \<Rightarrow> JfrCheckpointWriter
     \<Rightarrow> error + JfrCheckpointWriter" where
  "table_loop i nof_entries to_string w =
     (if i < nof_entries then
        (let w1 = write_key (ucast i) w in
         case to_string i of
           Inl e \<Rightarrow> Inl e
         | Inr s \<Rightarrow> table_loop (i + 1) nof_entries to_string (write_cell (Str s) w1))
      else Inr w)"
  by pat_completeness auto

termination
proof (relation "measure (\<lambda>(i, n, f, w). unat n - unat i)")
  show "wf (measure (\<lambda>(i, n, f, w). unat n - unat i))" by simp
next
  fix i nof_entries :: u4
  assume less: "i < nof_entries"
  have "i + 1 \<noteq> 0"
  proof
    assume "i + 1 = 0"
    then have "i = - 1" by (simp add: eq_neg_iff_add_eq_0)
    with less show False by simp
  qed
  then have "unat (i + 1) = Suc (unat i)" by (simp add: unatSuc add.commute)
  with less show "\<And>to_string w x xa. x = write_key (ucast i) w \<Longrightarrow> to_string i = Inr xa \<Longrightarrow>
      ((i + 1, nof_entries, to_string, write_cell (Str xa) x), i, nof_entries, to_string, w)
        \<in> measure (\<lambda>(i, n, f, w). unat n - unat i)"
    by (simp add: word_less_nat_alt)
qed

text \<open>The body shared by the looping tables: the count up front, then the loop.\<close>

definition serialize_table ::
  "u4 \<Rightarrow> (u4 \<Rightarrow> error + string option) \<Rightarrow> JfrCheckpointWriter \<Rightarrow> error + JfrCheckpointWriter" where
  "serialize_table nof_entries to_string writer =
     table_loop 0 nof_entries to_string (write_count nof_entries writer)"

text \<open>
  The two name lookups defined in the file. The enumerations \<^verbatim>\<open>Flag::Flags\<close> and
  \<^verbatim>\<open>ReferenceType\<close> are declared elsewhere: their named values are constructors, any
  other value is \<open>Flags_other\<close> or \<open>ReferenceType_other\<close>, and the cast from the counter is a
  parameter of the serializer.
\<close>

datatype Flags =
    DEFAULT | COMMAND_LINE | ENVIRON_VAR | CONFIG_FILE | MANAGEMENT | ERGONOMIC
  | ATTACH_ON_DEMAND | INTERNAL | Flags_other

fun flag_value_origin_to_string :: "Flags \<Rightarrow> error + string option" where
  "flag_value_origin_to_string DEFAULT = Inr (Some ''Default'')"
| "flag_value_origin_to_string COMMAND_LINE = Inr (Some ''Command line'')"
| "flag_value_origin_to_string ENVIRON_VAR = Inr (Some ''Environment variable'')"
| "flag_value_origin_to_string CONFIG_FILE = Inr (Some ''Config file'')"
| "flag_value_origin_to_string MANAGEMENT = Inr (Some ''Management'')"
| "flag_value_origin_to_string ERGONOMIC = Inr (Some ''Ergonomic'')"
| "flag_value_origin_to_string ATTACH_ON_DEMAND = Inr (Some ''Attach on demand'')"
| "flag_value_origin_to_string INTERNAL = Inr (Some ''Internal'')"
| "flag_value_origin_to_string Flags_other = Inl Should_not_reach_here"

datatype ReferenceType =
    REF_NONE | REF_OTHER | REF_SOFT | REF_WEAK | REF_FINAL | REF_PHANTOM | ReferenceType_other

fun reference_type_to_string :: "ReferenceType \<Rightarrow> error + string option" where
  "reference_type_to_string REF_NONE = Inr (Some ''None reference'')"
| "reference_type_to_string REF_OTHER = Inr (Some ''Other reference'')"
| "reference_type_to_string REF_SOFT = Inr (Some ''Soft reference'')"
| "reference_type_to_string REF_WEAK = Inr (Some ''Weak reference'')"
| "reference_type_to_string REF_FINAL = Inr (Some ''Final reference'')"
| "reference_type_to_string REF_PHANTOM = Inr (Some ''Phantom reference'')"
| "reference_type_to_string ReferenceType_other = Inl Should_not_reach_here"

text \<open>
  The serializers. The cardinality constants (\<^verbatim>\<open>Flag::LAST_VALUE_ORIGIN\<close>,
  \<^verbatim>\<open>GCCause::_last_gc_cause\<close>, ...) and the name lookups of other files are parameters,
  in this order: constants, then lookup.
\<close>

definition FlagValueOriginConstant_serialize ::
  "u4 \<Rightarrow> (u4 \<Rightarrow> Flags) \<Rightarrow> JfrCheckpointWriter \<Rightarrow> error + JfrCheckpointWriter" where
  "FlagValueOriginConstant_serialize LAST_VALUE_ORIGIN cast writer =
     serialize_table (LAST_VALUE_ORIGIN + 1) (\<lambda>i. flag_value_origin_to_string (cast i)) writer"

definition MonitorInflateCauseConstant_serialize ::
  "u4 \<Rightarrow> (u4 \<Rightarrow> error + string option) \<Rightarrow> JfrCheckpointWriter \<Rightarrow> error + JfrCheckpointWriter" where
  "MonitorInflateCauseConstant_serialize inflate_cause_nof inflate_cause_name writer =
     serialize_table inflate_cause_nof inflate_cause_name writer"

definition GCCauseConstant_serialize ::
  "u4 \<Rightarrow> (u4 \<Rightarrow> error + string option) \<Rightarrow> JfrCheckpointWriter \<Rightarrow> error + JfrCheckpointWriter" where
  "GCCauseConstant_serialize last_gc_cause to_string writer =
     serialize_table last_gc_cause to_string writer"

definition GCNameConstant_serialize ::
  "u4 \<Rightarrow> (u4 \<Rightarrow> error + string option) \<Rightarrow> JfrCheckpointWriter \<Rightarrow> error + JfrCheckpointWriter" where
  "GCNameConstant_serialize GCNameEndSentinel to_string writer =
     serialize_table GCNameEndSentinel to_string writer"

definition GCWhenConstant_serialize ::
  "u4 \<Rightarrow> (u4 \<Rightarrow> error + string option) \<Rightarrow> JfrCheckpointWriter \<Rightarrow> error + JfrCheckpointWriter" where
  "GCWhenConstant_serialize GCWhenEndSentinel to_string writer =
     serialize_table GCWhenEndSentinel to_string writer"

definition G1HeapRegionTypeConstant_serialize ::
  "u4 \<Rightarrow> (u4 \<Rightarrow> error + string option) \<Rightarrow> JfrCheckpointWriter \<Rightarrow> error + JfrCheckpointWriter" where
  "G1HeapRegionTypeConstant_serialize G1HeapRegionTypeEndSentinel to_string writer =
     serialize_table G1HeapRegionTypeEndSentinel to_string writer"

definition GCThresholdUpdaterConstant_serialize ::
  "u4 \<Rightarrow> (u4 \<Rightarrow> error + string option) \<Rightarrow> JfrCheckpointWriter \<Rightarrow> error + JfrCheckpointWriter" where
  "GCThresholdUpdaterConstant_serialize Last to_string writer =
     serialize_table Last to_string writer"

definition MetadataTypeConstant_serialize ::
  "u4 \<Rightarrow> (u4 \<Rightarrow> error + string option) \<Rightarrow> JfrCheckpointWriter \<Rightarrow> error + JfrCheckpointWriter" where
  "MetadataTypeConstant_serialize MetadataTypeCount metadata_type_name writer =
     serialize_table MetadataTypeCount metadata_type_name writer"

definition MetaspaceObjectTypeConstant_serialize ::
  "u4 \<Rightarrow> (u4 \<Rightarrow> error + string option) \<Rightarrow> JfrCheckpointWriter \<Rightarrow> error + JfrCheckpointWriter" where
  "MetaspaceObjectTypeConstant_serialize number_of_types type_name writer =
     serialize_table number_of_types type_name writer"

definition G1YCTypeConstant_serialize ::
  "build \<Rightarrow> u4 \<Rightarrow> (u4 \<Rightarrow> error + string option) \<Rightarrow> JfrCheckpointWriter
     \<Rightarrow> error + JfrCheckpointWriter" where
  "G1YCTypeConstant_serialize b G1YCTypeEndSentinel to_string writer =
     (if INCLUDE_ALL_GCS b then serialize_table G1YCTypeEndSentinel to_string writer
      else Inr writer)"

definition ReferenceTypeConstant_serialize ::
  "u4 \<Rightarrow> (u4 \<Rightarrow> ReferenceType) \<Rightarrow> JfrCheckpointWriter \<Rightarrow> error + JfrCheckpointWriter" where
  "ReferenceTypeConstant_serialize REF_PHANTOM_value cast writer =
     serialize_table (REF_PHANTOM_value + 1) (\<lambda>i. reference_type_to_string (cast i)) writer"

definition NarrowOopModeConstant_serialize ::
  "u4 \<Rightarrow> (u4 \<Rightarrow> error + string option) \<Rightarrow> JfrCheckpointWriter \<Rightarrow> error + JfrCheckpointWriter" where
  "NarrowOopModeConstant_serialize HeapBasedNarrowOop narrow_oop_mode_to_string writer =
     serialize_table (HeapBasedNarrowOop + 1) narrow_oop_mode_to_string writer"

definition CompilerPhaseTypeConstant_serialize ::
  "build \<Rightarrow> u4 \<Rightarrow> (u4 \<Rightarrow> error + string option) \<Rightarrow> JfrCheckpointWriter
     \<Rightarrow> error + JfrCheckpointWriter" where
  "CompilerPhaseTypeConstant_serialize b PHASE_NUM_TYPES to_string writer =
     (if COMPILER2 b then serialize_table PHASE_NUM_TYPES to_string writer
      else Inr writer)"

definition CodeBlobTypeConstant_serialize ::
  "u4 \<Rightarrow> u4 \<Rightarrow> JfrCheckpointWriter \<Rightarrow> error + JfrCheckpointWriter" where
  "CodeBlobTypeConstant_serialize NumTypes All_value writer =
     Inr (write_cell (Str (Some ''CodeCache''))
            (write_key (ucast All_value) (write_count NumTypes writer)))"

definition VMOperationTypeConstant_serialize ::
  "u4 \<Rightarrow> (u4 \<Rightarrow> error + string option) \<Rightarrow> JfrCheckpointWriter \<Rightarrow> error + JfrCheckpointWriter" where
  "VMOperationTypeConstant_serialize VMOp_Terminating name_of writer =
     serialize_table VMOp_Terminating name_of writer"

subsection \<open>The single-thread serializer\<close>

text \<open>
  Modelled from the spec: \<^verbatim>\<open>JfrThreadGroup::serialize(JfrCheckpointWriter*, traceid)\<close> is
  defined in another file; the spec says it embeds the owning-group chain of the given group
  id inline as a nested sub-record. The sub-record is one opaque field here.
\<close>

definition JfrThreadGroup_serialize :: "traceid \<Rightarrow> JfrCheckpointWriter \<Rightarrow> JfrCheckpointWriter" where
  "JfrThreadGroup_serialize thread_group_id w = write_cell (Group_chain thread_group_id) w"

text \<open>\<^verbatim>\<open>JfrThreadConstant::serialize\<close>; \<open>thread0\<close> is the member \<^verbatim>\<open>_thread\<close>.\<close>

definition JfrThreadConstant_serialize ::
  "build \<Rightarrow> (thread \<Rightarrow> thread \<Rightarrow> traceid) \<Rightarrow> thread \<Rightarrow> thread \<Rightarrow> JfrCheckpointWriter
     \<Rightarrow> error + JfrCheckpointWriter" where
  "JfrThreadConstant_serialize b tgid current thread0 writer =
     (if ASSERT b \<and> addr thread0 \<noteq> addr current then Inl Assert_failed
      else
        let w1 = write_count 1 writer;
            w2 = write_key (jfr_id thread0) w1;
            w3 = write_cell (Str (name thread0)) w2;
            w4 = write_cell (Id (os_id thread0)) w3
        in if is_Java_thread thread0 then
             let w5 = write_cell (Str (name thread0)) w4;
                 w6 = write_cell (Id (java_id thread0)) w5;
                 thread_group_id = tgid thread0 thread0;
                 w7 = write_cell (Id thread_group_id) w6
             in Inr (JfrThreadGroup_serialize thread_group_id w7)
           else Inr (write_cell (Id 0) (write_cell (Id 0) (write_cell (Str None) w4))))"

subsection \<open>Reference descriptions of what is written\<close>

text \<open>The six fields of one thread entry, with the thread that resolves the group id given
  separately from the thread described.\<close>

definition thread_entry :: "(thread \<Rightarrow> thread \<Rightarrow> traceid) \<Rightarrow> thread \<Rightarrow> thread \<Rightarrow> cell list" where
  "thread_entry tgid resolver t =
     [Key (jfr_id t), Str (name t), Id (os_id t)] @
     (if is_Java_thread t then [Str (name t), Id (java_id t), Id (tgid t resolver)]
      else [Str None, Id 0, Id 0])"

text \<open>The entries \<open>(k, names k)\<close> of a table for the ordinals \<open>lo \<le> k < hi\<close>, in increasing order.\<close>

definition table_entries :: "(u4 \<Rightarrow> string option) \<Rightarrow> nat \<Rightarrow> nat \<Rightarrow> cell list" where
  "table_entries names lo hi =
     concat (map (\<lambda>k. [Key (ucast (word_of_nat k :: u4)), Str (names (word_of_nat k))]) [lo ..< hi])"

text \<open>Two writers agree on every field below an offset.\<close>

definition same_below :: "nat \<Rightarrow> JfrCheckpointWriter \<Rightarrow> JfrCheckpointWriter \<Rightarrow> bool" where
  "same_below p w w' = (\<forall>i<p. buffer w' i = buffer w i)"

text \<open>Two fields are of the same kind.\<close>

fun same_kind :: "cell \<Rightarrow> cell \<Rightarrow> bool" where
  "same_kind Uninit Uninit = True"
| "same_kind (Count m) (Count n) = True"
| "same_kind (Key j) (Key k) = True"
| "same_kind (Str s) (Str t) = True"
| "same_kind (Id i) (Id j) = True"
| "same_kind (Group_chain g) (Group_chain h) = True"
| "same_kind c d = False"

text \<open>The fields of the single-thread pool: the count 1, the entry of the thread resolved by
  itself and, for a Java thread, the nested group chain.\<close>

definition self_fields :: "(thread \<Rightarrow> thread \<Rightarrow> traceid) \<Rightarrow> thread \<Rightarrow> cell list" where
  "self_fields tgid t =
     Count 1 # thread_entry tgid t t @
     (if is_Java_thread t then [Group_chain (tgid t t)] else [])"

text \<open>What a serializer wrote, from the cursor it started at; nothing when it did not
  return.\<close>

definition written :: "JfrCheckpointWriter \<Rightarrow> error + JfrCheckpointWriter \<Rightarrow> cell list" where
  "written w r = (case r of Inl e \<Rightarrow> [] | Inr w' \<Rightarrow> cells_from (cursor w) w')"

text \<open>
  The looping table of cardinality \<open>N\<close>, in the spec's words: the serializer returns; it
  does not roll back (the cursor moved forward, the earlier contents are kept); its pool is
  the count \<open>N\<close> and the entries \<open>(i, names i)\<close> for \<open>i = 0, ..., N - 1\<close> in this order, that
  is \<open>N\<close> entries, entry \<open>i\<close> with key \<open>i\<close>.
\<close>

definition writes_table ::
  "u4 \<Rightarrow> (u4 \<Rightarrow> string option) \<Rightarrow> JfrCheckpointWriter \<Rightarrow> error + JfrCheckpointWriter \<Rightarrow> bool" where
  "writes_table N names w r =
     (case r of
        Inl e \<Rightarrow> False
      | Inr w' \<Rightarrow>
          cursor w < cursor w' \<and>
          contents w' = contents w @ cells_from (cursor w) w' \<and>
          cells_from (cursor w) w' = Count N # table_entries names 0 (unat N) \<and>
          pool_count (cells_from (cursor w) w') = Some N \<and>
          pool_entries (cells_from (cursor w) w') = unat N \<and>
          map unat (pool_keys (cells_from (cursor w) w')) = [0 ..< unat N])"

text \<open>The serializer returns and the count field at the head of its pool equals the number
  of entries behind it.\<close>

definition count_matches :: "JfrCheckpointWriter \<Rightarrow> error + JfrCheckpointWriter \<Rightarrow> bool" where
  "count_matches w r =
     (case r of
        Inl e \<Rightarrow> False
      | Inr w' \<Rightarrow>
          (case pool_count (cells_from (cursor w) w') of
             None \<Rightarrow> False
           | Some n \<Rightarrow> unat n = pool_entries (cells_from (cursor w) w')))"

text \<open>The event log a run of the thread-set serializer returns with.\<close>

definition trace_of :: "error + JfrCheckpointWriter \<times> env \<Rightarrow> event list" where
  "trace_of r = (case r of Inl e \<Rightarrow> [] | Inr (w, s) \<Rightarrow> trace s)"

subsection \<open>Sample inputs\<close>

definition writer0 :: JfrCheckpointWriter where
  "writer0 = \<lparr>buffer = (\<lambda>i. Uninit), cursor = 0\<rparr>"

definition env0 :: env where
  "env0 = \<lparr>skip_rank_order_check = False, trace = []\<rparr>"

definition debug_build :: build where
  "debug_build = \<lparr>ASSERT = True, INCLUDE_ALL_GCS = True, COMPILER2 = True\<rparr>"

definition product_build :: build where
  "product_build = \<lparr>ASSERT = False, INCLUDE_ALL_GCS = True, COMPILER2 = True\<rparr>"

definition minimal_build :: build where
  "minimal_build = \<lparr>ASSERT = False, INCLUDE_ALL_GCS = False, COMPILER2 = False\<rparr>"

definition java10 :: thread where
  "java10 = \<lparr>addr = 1, jfr_id = 10, name = Some ''main'', os_id = 100,
             is_Java_thread = True, java_id = 1\<rparr>"

definition java11 :: thread where
  "java11 = \<lparr>addr = 2, jfr_id = 11, name = Some ''worker'', os_id = 101,
             is_Java_thread = True, java_id = 2\<rparr>"

definition native5 :: thread where
  "native5 = \<lparr>addr = 3, jfr_id = 5, name = Some ''VM Thread'', os_id = 102,
              is_Java_thread = False, java_id = 0\<rparr>"

definition unnamed7 :: thread where
  "unnamed7 = \<lparr>addr = 4, jfr_id = 7, name = None, os_id = 103,
               is_Java_thread = False, java_id = 0\<rparr>"

text \<open>A group resolver whose answer depends on both the subject and the resolving thread.\<close>

definition tgid0 :: "thread \<Rightarrow> thread \<Rightarrow> traceid" where
  "tgid0 subject resolver = 1000 * jfr_id resolver + jfr_id subject"

text \<open>Name lookups for a table of three values, and the casts and names of the flag origins
  and reference types numbered in the order the file lists them.\<close>

definition names0 :: "u4 \<Rightarrow> string option" where
  "names0 i = (if i = 0 then Some ''zero'' else if i = 1 then Some ''one'' else Some ''many'')"

definition lookup0 :: "u4 \<Rightarrow> error + string option" where
  "lookup0 i = Inr (names0 i)"

definition flags0 :: "u4 \<Rightarrow> Flags" where
  "flags0 i =
     (if i = 0 then DEFAULT else if i = 1 then COMMAND_LINE else if i = 2 then ENVIRON_VAR
      else if i = 3 then CONFIG_FILE else if i = 4 then MANAGEMENT else if i = 5 then ERGONOMIC
      else if i = 6 then ATTACH_ON_DEMAND else if i = 7 then INTERNAL else Flags_other)"

definition flag_names0 :: "u4 \<Rightarrow> string option" where
  "flag_names0 i =
     (if i = 0 then Some ''Default'' else if i = 1 then Some ''Command line''
      else if i = 2 then Some ''Environment variable'' else if i = 3 then Some ''Config file''
      else if i = 4 then Some ''Management'' else if i = 5 then Some ''Ergonomic''
      else if i = 6 then Some ''Attach on demand'' else Some ''Internal'')"

definition refs0 :: "u4 \<Rightarrow> ReferenceType" where
  "refs0 i =
     (if i = 0 then REF_NONE else if i = 1 then REF_OTHER else if i = 2 then REF_SOFT
      else if i = 3 then REF_WEAK else if i = 4 then REF_FINAL else if i = 5 then REF_PHANTOM
      else ReferenceType_other)"

definition ref_names0 :: "u4 \<Rightarrow> string option" where
  "ref_names0 i =
     (if i = 0 then Some ''None reference'' else if i = 1 then Some ''Other reference''
      else if i = 2 then Some ''Soft reference'' else if i = 3 then Some ''Weak reference''
      else if i = 4 then Some ''Final reference'' else Some ''Phantom reference'')"

text \<open>
  A registry of \<open>n\<close> Java threads.
\<close>

definition crowd :: "nat \<Rightarrow> thread list" where
  "crowd n = replicate n java10"

text \<open>
  The cursor a run of the thread-set serializer returns with.
\<close>

definition set_cursor :: "error + JfrCheckpointWriter \<times> env \<Rightarrow> nat option" where
  "set_cursor r = (case r of Inl e \<Rightarrow> None | Inr (w', s) \<Rightarrow> Some (cursor w'))"

text \<open>
  What a run of the thread-set serializer wrote, from the cursor it started at.
\<close>

definition set_written :: "JfrCheckpointWriter \<Rightarrow> error + JfrCheckpointWriter \<times> env \<Rightarrow> cell list" where
  "set_written w r = (case r of Inl e \<Rightarrow> [] | Inr (w', s) \<Rightarrow> cells_from (cursor w) w')"

text \<open>
  The name of every ordinal of the code blob table.
\<close>

definition code_cache_names :: "u4 \<Rightarrow> string option" where
  "code_cache_names i = Some ''CodeCache''"

section \<open>Verification\<close>

subsection \<open>The writer\<close>

lemma cursor_write_cell: "cursor (write_cell c w) = Suc (cursor w)"
  by (simp add: write_cell_def)

lemma buffer_write_cell_below: "i < cursor w \<Longrightarrow> buffer (write_cell c w) i = buffer w i"
  by (simp add: write_cell_def)

lemma cells_from_write_cell:
  "p \<le> cursor w \<Longrightarrow> cells_from p (write_cell c w) = cells_from p w @ [c]"
  by (simp add: cells_from_def write_cell_def)

lemma cells_from_same:
  "cursor w' = cursor w \<Longrightarrow> (\<forall>i. p \<le> i \<and> i < cursor w \<longrightarrow> buffer w' i = buffer w i)
     \<Longrightarrow> cells_from p w' = cells_from p w"
  by (simp add: cells_from_def)

lemma do_thread_Inr:
  assumes "do_thread b tgid t tc = Inr tc'"
  shows "tc_count tc' = tc_count tc + 1"
    and "tc_ctx tc' = tc_ctx tc"
    and "tc_count_position tc' = tc_count_position tc"
    and "tc_curthread tc' = tc_curthread tc"
    and "cursor (tc_writer tc') = cursor (tc_writer tc) + 6"
    and "same_below (cursor (tc_writer tc)) (tc_writer tc) (tc_writer tc')"
    and "p \<le> cursor (tc_writer tc) \<Longrightarrow>
           cells_from p (tc_writer tc') = cells_from p (tc_writer tc) @ thread_entry tgid (tc_curthread tc) t"
  using assms
  by (auto simp: do_thread_def Let_def write_key_def cursor_write_cell cells_from_write_cell
      thread_entry_def same_below_def buffer_write_cell_below split: if_splits)

lemma do_thread_total:
  "\<not> (ASSERT b \<and> name t = None) \<Longrightarrow> \<exists>tc'. do_thread b tgid t tc = Inr tc'"
  by (simp add: do_thread_def Let_def)

lemma do_thread_fatal:
  "ASSERT b \<Longrightarrow> name t = None \<Longrightarrow> do_thread b tgid t tc = Inl Assert_failed"
  by (simp add: do_thread_def)

lemma same_below_trans:
  "same_below p w w' \<Longrightarrow> same_below q w' w'' \<Longrightarrow> p \<le> q \<Longrightarrow> same_below p w w''"
  by (simp add: same_below_def)

lemma do_threads_Inr:
  "do_threads b tgid ts (tc, s) = Inr (tc', s') \<Longrightarrow>
     tc_count tc' = tc_count tc + of_nat (length ts) \<and>
     tc_ctx tc' = tc_ctx tc \<and>
     tc_count_position tc' = tc_count_position tc \<and>
     tc_curthread tc' = tc_curthread tc \<and>
     cursor (tc_writer tc') = cursor (tc_writer tc) + 6 * length ts \<and>
     same_below (cursor (tc_writer tc)) (tc_writer tc) (tc_writer tc') \<and>
     (p \<le> cursor (tc_writer tc) \<longrightarrow>
        cells_from p (tc_writer tc') =
          cells_from p (tc_writer tc) @ concat (map (thread_entry tgid (tc_curthread tc)) ts)) \<and>
     trace s' = trace s @ map Do_thread ts \<and>
     skip_rank_order_check s' = skip_rank_order_check s"
proof (induction ts arbitrary: tc s)
  case Nil
  then show ?case by (simp add: same_below_def)
next
  case (Cons t ts)
  from Cons.prems obtain tc1 where
    step: "do_thread b tgid t tc = Inr tc1" and
    rest: "do_threads b tgid ts (tc1, log (Do_thread t) s) = Inr (tc', s')"
    by (auto split: sum.splits)
  note h = do_thread_Inr [OF step]
  note ih = Cons.IH [OF rest]
  have sb: "same_below (cursor (tc_writer tc)) (tc_writer tc) (tc_writer tc')"
    using same_below_trans [of "cursor (tc_writer tc)" "tc_writer tc" "tc_writer tc1"
        "cursor (tc_writer tc1)" "tc_writer tc'"] h(5,6) ih by simp
  have cells: "p \<le> cursor (tc_writer tc) \<longrightarrow>
        cells_from p (tc_writer tc') =
          cells_from p (tc_writer tc) @ concat (map (thread_entry tgid (tc_curthread tc)) (t # ts))"
    using h(4,5) h(7) [of p] ih by simp
  show ?case using h(1-5) ih sb cells by (simp add: log_def)
qed

lemma do_threads_total:
  "\<not> (ASSERT b \<and> (\<exists>t \<in> set ts. name t = None)) \<Longrightarrow> \<exists>r. do_threads b tgid ts (tc, s) = Inr r"
proof (induction ts arbitrary: tc s)
  case Nil
  then show ?case by simp
next
  case (Cons t ts)
  then have "\<not> (ASSERT b \<and> name t = None)" by auto
  from do_thread_total [OF this] obtain tc1 where "do_thread b tgid t tc = Inr tc1" by blast
  moreover from Cons have "\<exists>r. do_threads b tgid ts (tc1, log (Do_thread t) s) = Inr r" by auto
  ultimately show ?case by simp
qed

lemma do_threads_fatal:
  "ASSERT b \<Longrightarrow> \<exists>t \<in> set ts. name t = None \<Longrightarrow> do_threads b tgid ts (tc, s) = Inl Assert_failed"
proof (induction ts arbitrary: tc s)
  case Nil
  then show ?case by simp
next
  case (Cons t ts)
  show ?case
  proof (cases "name t = None")
    case True
    with Cons.prems show ?thesis by (simp add: do_thread_fatal)
  next
    case False
    with Cons.prems have ex: "\<exists>t \<in> set ts. name t = None" by auto
    from False obtain tc1 where "do_thread b tgid t tc = Inr tc1"
      using do_thread_total [of b t tgid tc] by auto
    then show ?thesis using Cons.IH [OF Cons.prems(1) ex] by simp
  qed
qed

lemma cells_from_write_count_at:
  "position < cursor w \<Longrightarrow>
     cells_from position (write_count_at n position w) = Count n # cells_from (Suc position) w"
  by (simp add: cells_from_def write_count_at_def upt_conv_Cons)

lemma serialize_set_unfold:
  assumes "JfrThreadConstantSet_serialize b tgid current js ns (w, s) = Inr (w', s')"
  obtains tc1 s4 tc2 s5 where
    "do_threads b tgid js (new_closure current w,
        (if ASSERT b then set_skip_rank_order_check True (log Lock_Threads_lock (log Reserve_count s))
         else log Lock_Threads_lock (log Reserve_count s))) = Inr (tc1, s4)"
    "do_threads b tgid ns (tc1, s4) = Inr (tc2, s5)"
    "w' = finish_closure tc2"
    "s' = log Finish_closure (log Unlock_Threads_lock
            (if ASSERT b then set_skip_rank_order_check False s5 else s5))"
  using assms
  by (auto simp: JfrThreadConstantSet_serialize_def Let_def split: sum.splits prod.splits)

lemma serialize_set_closure:
  assumes "JfrThreadConstantSet_serialize b tgid current js ns (w, s) = Inr (w', s')"
  obtains tc2 where
    "w' = finish_closure tc2"
    "tc_count tc2 = of_nat (length (js @ ns))"
    "tc_ctx tc2 = cursor w"
    "tc_count_position tc2 = cursor w"
    "cursor (tc_writer tc2) = cursor w + 1 + 6 * length (js @ ns)"
    "same_below (cursor w) w (tc_writer tc2)"
    "cells_from (Suc (cursor w)) (tc_writer tc2) = concat (map (thread_entry tgid current) (js @ ns))"
proof -
  from assms obtain tc1 s4 tc2 s5 where
    a: "do_threads b tgid js (new_closure current w,
        (if ASSERT b then set_skip_rank_order_check True (log Lock_Threads_lock (log Reserve_count s))
         else log Lock_Threads_lock (log Reserve_count s))) = Inr (tc1, s4)" and
    b: "do_threads b tgid ns (tc1, s4) = Inr (tc2, s5)" and
    c: "w' = finish_closure tc2"
    by (rule serialize_set_unfold)
  let ?tc0 = "new_closure current w"
  have n0: "tc_count ?tc0 = 0" "tc_ctx ?tc0 = cursor w" "tc_count_position ?tc0 = cursor w"
    "tc_curthread ?tc0 = current" "cursor (tc_writer ?tc0) = Suc (cursor w)"
    "same_below (cursor w) w (tc_writer ?tc0)"
    "cells_from (Suc (cursor w)) (tc_writer ?tc0) = []"
    by (simp_all add: new_closure_def context_of_def reserve_def same_below_def cells_from_def)
  note ha = do_threads_Inr [OF a, of "Suc (cursor w)"]
  note hb = do_threads_Inr [OF b, of "Suc (cursor w)"]
  have sb1: "same_below (cursor w) w (tc_writer tc1)"
    using same_below_trans [OF n0(6), of "cursor (tc_writer ?tc0)" "tc_writer tc1"] ha n0(5) by simp
  have sb2: "same_below (cursor w) w (tc_writer tc2)"
    using same_below_trans [OF sb1, of "cursor (tc_writer tc1)" "tc_writer tc2"] ha hb n0(5) by simp
  show thesis
  proof (rule that [of tc2])
    show "w' = finish_closure tc2" by (rule c)
    show "tc_count tc2 = of_nat (length (js @ ns))" using ha hb n0 by simp
    show "tc_ctx tc2 = cursor w" using ha hb n0 by simp
    show "tc_count_position tc2 = cursor w" using ha hb n0 by simp
    show "cursor (tc_writer tc2) = cursor w + 1 + 6 * length (js @ ns)" using ha hb n0 by simp
    show "same_below (cursor w) w (tc_writer tc2)" by (rule sb2)
    show "cells_from (Suc (cursor w)) (tc_writer tc2) = concat (map (thread_entry tgid current) (js @ ns))"
      using ha hb n0 by simp
  qed
qed

lemma serialize_set_rollback:
  assumes "JfrThreadConstantSet_serialize b tgid current js ns (w, s) = Inr (w', s')"
    and "(of_nat (length (js @ ns)) :: u4) = 0"
  shows "cursor w' = cursor w" and "contents w' = contents w" and "context_of w' = context_of w"
proof -
  from assms(1) obtain tc2 where h:
    "w' = finish_closure tc2"
    "tc_count tc2 = of_nat (length (js @ ns))"
    "tc_ctx tc2 = cursor w"
    "same_below (cursor w) w (tc_writer tc2)"
    by (rule serialize_set_closure)
  from h assms(2) have w': "w' = set_context (cursor w) (tc_writer tc2)"
    by (simp add: finish_closure_def)
  then show "cursor w' = cursor w" by (simp add: set_context_def)
  then show "context_of w' = context_of w" by (simp add: context_of_def)
  from w' h(4) show "contents w' = contents w"
    by (simp add: contents_def cells_from_def set_context_def same_below_def)
qed

lemma serialize_set_patch:
  assumes "JfrThreadConstantSet_serialize b tgid current js ns (w, s) = Inr (w', s')"
    and "(of_nat (length (js @ ns)) :: u4) \<noteq> 0"
  shows "cursor w' = cursor w + 1 + 6 * length (js @ ns)"
    and "cells_from (cursor w) w' =
           Count (of_nat (length (js @ ns))) # concat (map (thread_entry tgid current) (js @ ns))"
    and "same_below (cursor w) w w'"
proof -
  from assms(1) obtain tc2 where h:
    "w' = finish_closure tc2"
    "tc_count tc2 = of_nat (length (js @ ns))"
    "tc_count_position tc2 = cursor w"
    "cursor (tc_writer tc2) = cursor w + 1 + 6 * length (js @ ns)"
    "same_below (cursor w) w (tc_writer tc2)"
    "cells_from (Suc (cursor w)) (tc_writer tc2) = concat (map (thread_entry tgid current) (js @ ns))"
    by (rule serialize_set_closure)
  from h assms(2) have w': "w' = write_count_at (of_nat (length (js @ ns))) (cursor w) (tc_writer tc2)"
    by (simp add: finish_closure_def)
  from w' h(4) show "cursor w' = cursor w + 1 + 6 * length (js @ ns)"
    by (simp add: write_count_at_def)
  have "cursor w < cursor (tc_writer tc2)" using h(4) by simp
  from cells_from_write_count_at [OF this] w' h(6)
  show "cells_from (cursor w) w' =
           Count (of_nat (length (js @ ns))) # concat (map (thread_entry tgid current) (js @ ns))"
    by simp
  from w' h(5) show "same_below (cursor w) w w'"
    by (simp add: same_below_def write_count_at_def)
qed

lemma word_less_Suc:
  fixes i n :: "'a::len word"
  assumes "i < n"
  shows "unat (i + 1) = Suc (unat i)"
proof -
  have "i + 1 \<noteq> 0"
  proof
    assume "i + 1 = 0"
    then have "i = - 1" by (simp add: eq_neg_iff_add_eq_0)
    with assms show False by simp
  qed
  then show ?thesis by (simp add: unatSuc add.commute)
qed

lemma table_loop_Inr:
  "(\<forall>j. i \<le> j \<and> j < n \<longrightarrow> f j = Inr (names j)) \<Longrightarrow> p \<le> cursor w \<Longrightarrow>
     \<exists>w'. table_loop i n f w = Inr w' \<and>
          cursor w' = cursor w + 2 * (unat n - unat i) \<and>
          same_below (cursor w) w w' \<and>
          cells_from p w' = cells_from p w @ table_entries names (unat i) (unat n)"
proof (induction i n f w rule: table_loop.induct)
  case (1 i n f w)
  show ?case
  proof (cases "i < n")
    case False
    then have "unat n \<le> unat i" by (simp add: word_less_nat_alt)
    with False show ?thesis
      by (simp add: table_entries_def same_below_def)
  next
    case True
    let ?w2 = "write_cell (Str (names i)) (write_key (ucast i) w)"
    from True "1.prems" have fi: "f i = Inr (names i)" by simp
    have suc: "unat (i + 1) = Suc (unat i)" using True by (rule word_less_Suc)
    have lt: "unat i < unat n" using True by (simp add: word_less_nat_alt)
    have le: "i \<le> i + 1" using suc by (simp add: word_le_nat_alt)
    have pre: "\<forall>j. i + 1 \<le> j \<and> j < n \<longrightarrow> f j = Inr (names j)"
      using "1.prems"(1) le by (meson order_trans)
    have pc: "p \<le> cursor ?w2" using "1.prems"(2)
      by (simp add: write_key_def cursor_write_cell)
    from "1.IH" [OF True refl fi pre pc] obtain w' where
      r: "table_loop (i + 1) n f ?w2 = Inr w'" and
      c: "cursor w' = cursor ?w2 + 2 * (unat n - unat (i + 1))" and
      sb: "same_below (cursor ?w2) ?w2 w'" and
      cs: "cells_from p w' = cells_from p ?w2 @ table_entries names (unat (i + 1)) (unat n)"
      by blast
    have res: "table_loop i n f w = Inr w'"
      using True fi r by (simp add: Let_def)
    have cur: "cursor w' = cursor w + 2 * (unat n - unat i)"
      using c suc lt by (simp add: write_key_def cursor_write_cell)
    have sb': "same_below (cursor w) w w'"
      using sb by (simp add: same_below_def write_key_def write_cell_def)
    have ent: "table_entries names (unat i) (unat n)
        = [Key (ucast i), Str (names i)] @ table_entries names (unat (i + 1)) (unat n)"
      using lt suc by (simp add: table_entries_def upt_conv_Cons)
    have cs': "cells_from p w' = cells_from p w @ table_entries names (unat i) (unat n)"
      using cs "1.prems"(2) ent
      by (simp add: write_key_def cells_from_write_cell cursor_write_cell)
    from res cur sb' cs' show ?thesis by blast
  qed
qed

lemma serialize_table_Inr:
  assumes "\<forall>j. j < n \<longrightarrow> f j = Inr (names j)"
  shows "\<exists>w'. serialize_table n f w = Inr w' \<and>
          cursor w' = cursor w + 1 + 2 * unat n \<and>
          contents w' = contents w @ Count n # table_entries names 0 (unat n) \<and>
          cells_from (cursor w) w' = Count n # table_entries names 0 (unat n)"
proof -
  let ?w1 = "write_count n w"
  have c1: "cursor ?w1 = Suc (cursor w)" by (simp add: write_count_def cursor_write_cell)
  have a: "\<forall>j. 0 \<le> j \<and> j < n \<longrightarrow> f j = Inr (names j)" using assms by simp
  from table_loop_Inr [OF a, of "cursor w" ?w1] c1 obtain w' where
    r: "table_loop 0 n f ?w1 = Inr w'" and
    c: "cursor w' = cursor ?w1 + 2 * (unat n - unat (0::u4))" and
    cs: "cells_from (cursor w) w' = cells_from (cursor w) ?w1 @ table_entries names (unat (0::u4)) (unat n)"
    by auto
  from table_loop_Inr [OF a, of 0 ?w1] r have
    cs0: "cells_from 0 w' = cells_from 0 ?w1 @ table_entries names (unat (0::u4)) (unat n)"
    by auto
  have h1: "cells_from (cursor w) ?w1 = [Count n]"
    by (simp add: write_count_def cells_from_write_cell) (simp add: cells_from_def)
  have h0: "cells_from 0 ?w1 = contents w @ [Count n]"
    by (simp add: write_count_def cells_from_write_cell contents_def)
  show ?thesis using r c c1 cs cs0 h1 h0 by (simp add: serialize_table_def contents_def)
qed

lemma contents_split:
  "same_below (cursor w) w w' \<Longrightarrow> cursor w \<le> cursor w' \<Longrightarrow>
     contents w' = contents w @ cells_from (cursor w) w'"
proof -
  assume sb: "same_below (cursor w) w w'" and le: "cursor w \<le> cursor w'"
  have "[0 ..< cursor w'] = [0 ..< cursor w] @ [cursor w ..< cursor w']"
    using le by (metis le_add_diff_inverse upt_add_eq_append zero_le)
  then show ?thesis using sb
    by (simp add: contents_def cells_from_def same_below_def)
qed

lemma serialize_set_total:
  assumes "\<not> (ASSERT b \<and> (\<exists>t \<in> set (js @ ns). name t = None))"
  shows "\<exists>w' s'. JfrThreadConstantSet_serialize b tgid current js ns (w, s) = Inr (w', s')"
proof -
  let ?s3 = "if ASSERT b then set_skip_rank_order_check True (log Lock_Threads_lock (log Reserve_count s))
         else log Lock_Threads_lock (log Reserve_count s)"
  from assms have j: "\<not> (ASSERT b \<and> (\<exists>t \<in> set js. name t = None))"
    and n: "\<not> (ASSERT b \<and> (\<exists>t \<in> set ns. name t = None))" by auto
  from do_threads_total [OF j, of tgid "new_closure current w" ?s3]
  obtain tc1 s4 where a: "do_threads b tgid js (new_closure current w, ?s3) = Inr (tc1, s4)"
    by (cases) auto
  from do_threads_total [OF n, of tgid tc1 s4]
  obtain tc2 s5 where c: "do_threads b tgid ns (tc1, s4) = Inr (tc2, s5)" by (cases) auto
  show ?thesis using a c
    by (simp add: JfrThreadConstantSet_serialize_def Let_def)
qed

lemma u4_unat_of_nat: "n < 2 ^ 32 \<Longrightarrow> unat (word_of_nat n :: u4) = n"
  by (simp add: unat_of_nat)

lemma u4_of_nat_eq_0: "n < 2 ^ 32 \<Longrightarrow> (word_of_nat n :: u4) = 0 \<longleftrightarrow> n = 0"
proof
  assume b: "n < 2 ^ 32" and z: "(word_of_nat n :: u4) = 0"
  from z have "unat (word_of_nat n :: u4) = 0" by simp
  with u4_unat_of_nat [OF b] show "n = 0" by simp
next
  assume "n = 0" then show "(word_of_nat n :: u4) = 0" by simp
qed

lemma cells_from_cursor: "cells_from (cursor w) w = []"
  by (simp add: cells_from_def)

lemma same_below_refl: "same_below p w w"
  by (simp add: same_below_def)

lemma same_below_write_cell: "p \<le> cursor w \<Longrightarrow> same_below p w (write_cell c w)"
  by (simp add: same_below_def write_cell_def)

lemma self_serialize_Inr:
  assumes "\<not> (ASSERT b \<and> addr thread0 \<noteq> addr current)"
  shows "\<exists>w'. JfrThreadConstant_serialize b tgid current thread0 w = Inr w' \<and>
           cursor w' = cursor w + length (self_fields tgid thread0) \<and>
           same_below (cursor w) w w' \<and>
           cells_from (cursor w) w' = self_fields tgid thread0"
  using assms
  by (auto simp: JfrThreadConstant_serialize_def Let_def write_key_def write_count_def
      JfrThreadGroup_serialize_def cursor_write_cell cells_from_write_cell cells_from_cursor
      self_fields_def thread_entry_def same_below_def buffer_write_cell_below)

lemma self_serialize_fatal:
  "ASSERT b \<Longrightarrow> addr thread0 \<noteq> addr current \<Longrightarrow>
     JfrThreadConstant_serialize b tgid current thread0 w = Inl Assert_failed"
  by (simp add: JfrThreadConstant_serialize_def)

lemma table_entries_count: "length (filter is_Key (table_entries names lo hi)) = hi - lo"
proof (induction hi)
  case 0
  then show ?case by (simp add: table_entries_def)
next
  case (Suc hi)
  then show ?case by (cases "lo \<le> hi") (simp_all add: table_entries_def)
qed

lemma table_entries_keys:
  "concat (map (\<lambda>c. case c of Key k \<Rightarrow> [k] | _ \<Rightarrow> []) (table_entries names lo hi))
     = map (\<lambda>k. ucast (word_of_nat k :: u4)) [lo ..< hi]"
proof (induction hi)
  case 0
  then show ?case by (simp add: table_entries_def)
next
  case (Suc hi)
  then show ?case by (cases "lo \<le> hi") (simp_all add: table_entries_def)
qed

lemma key_of_ordinal:
  "k < 2 ^ 32 \<Longrightarrow> unat (ucast (word_of_nat k :: u4) :: traceid) = k"
proof -
  assume k: "k < 2 ^ 32"
  then have "k < (2::nat) ^ 64" by simp
  then have t: "take_bit 64 k = k" by (simp add: take_bit_nat_eq_self)
  have "unat (ucast (word_of_nat k :: u4) :: traceid) = take_bit 64 (unat (word_of_nat k :: u4))"
    by (simp add: unsigned_ucast_eq)
  also have "\<dots> = k" using u4_unat_of_nat [OF k] t by simp
  finally show ?thesis .
qed

lemma table_keys_ordinals:
  "n \<le> 2 ^ 32 \<Longrightarrow> map unat (map (\<lambda>k. ucast (word_of_nat k :: u4) :: traceid) [0 ..< n]) = [0 ..< n]"
proof -
  assume n: "n \<le> 2 ^ 32"
  have "map (\<lambda>k. unat (ucast (word_of_nat k :: u4) :: traceid)) [0 ..< n] = map (\<lambda>k. k) [0 ..< n]"
  proof (rule map_cong [OF refl])
    fix k assume "k \<in> set [0 ..< n]"
    then have "k < 2 ^ 32" using n by simp
    then show "unat (ucast (word_of_nat k :: u4) :: traceid) = k" by (rule key_of_ordinal)
  qed
  then show ?thesis by (simp add: comp_def)
qed

lemma serialize_table_writes:
  assumes "\<forall>j. j < N \<longrightarrow> f j = Inr (names j)"
  shows "writes_table N names w (serialize_table N f w)"
proof -
  from serialize_table_Inr [OF assms, of w] obtain w' where
    r: "serialize_table N f w = Inr w'" and
    cu: "cursor w' = cursor w + 1 + 2 * unat N" and
    co: "contents w' = contents w @ Count N # table_entries names 0 (unat N)" and
    ce: "cells_from (cursor w) w' = Count N # table_entries names 0 (unat N)" by blast
  have b: "unat N \<le> 2 ^ 32" using unsigned_less [of N, where 'a = nat] by simp
  have pe: "pool_entries (Count N # table_entries names 0 (unat N)) = unat N"
    by (simp add: pool_entries_def table_entries_count)
  have pk: "map unat (pool_keys (Count N # table_entries names 0 (unat N))) = [0 ..< unat N]"
    using table_keys_ordinals [OF b] by (simp add: pool_keys_def table_entries_keys)
  show ?thesis using r cu co ce pe pk by (simp add: writes_table_def)
qed

lemma writes_table_count_matches: "writes_table N names w r \<Longrightarrow> count_matches w r"
  by (auto simp: writes_table_def count_matches_def split: sum.splits)

lemma serialize_table_count_matches:
  "\<forall>j. j < N \<longrightarrow> f j = Inr (names j) \<Longrightarrow> count_matches w (serialize_table N f w)"
  by (rule writes_table_count_matches [OF serialize_table_writes])

lemma thread_entries_count:
  "length (filter is_Key (concat (map (thread_entry tgid r) ts))) = length ts"
  by (induction ts) (simp_all add: thread_entry_def)

lemma code_blob_cells:
  "\<exists>w'. CodeBlobTypeConstant_serialize NumTypes All_value w = Inr w' \<and>
         cells_from (cursor w) w' = [Count NumTypes, Key (ucast All_value), Str (Some ''CodeCache'')]"
  by (simp add: CodeBlobTypeConstant_serialize_def write_key_def write_count_def
      cells_from_write_cell cursor_write_cell cells_from_cursor)

lemma serialize_set_trace:
  assumes "JfrThreadConstantSet_serialize b tgid current js ns (w, s) = Inr (w', s')"
  shows "trace s' = trace s @ [Reserve_count, Lock_Threads_lock] @
           (if ASSERT b then [Set_skip_rank_order_check True] else []) @
           map Do_thread (js @ ns) @
           (if ASSERT b then [Set_skip_rank_order_check False] else []) @
           [Unlock_Threads_lock, Finish_closure]"
    and "skip_rank_order_check s' = (if ASSERT b then False else skip_rank_order_check s)"
proof -
  let ?s3 = "if ASSERT b then set_skip_rank_order_check True (log Lock_Threads_lock (log Reserve_count s))
         else log Lock_Threads_lock (log Reserve_count s)"
  from assms obtain tc1 s4 tc2 s5 where
    a: "do_threads b tgid js (new_closure current w, ?s3) = Inr (tc1, s4)" and
    c: "do_threads b tgid ns (tc1, s4) = Inr (tc2, s5)" and
    s': "s' = log Finish_closure (log Unlock_Threads_lock
            (if ASSERT b then set_skip_rank_order_check False s5 else s5))"
    by (rule serialize_set_unfold)
  from do_threads_Inr [OF a, of 0] have
    t4: "trace s4 = trace ?s3 @ map Do_thread js" and
    k4: "skip_rank_order_check s4 = skip_rank_order_check ?s3" by simp_all
  from do_threads_Inr [OF c, of 0] have
    t5: "trace s5 = trace s4 @ map Do_thread ns" and
    k5: "skip_rank_order_check s5 = skip_rank_order_check s4" by simp_all
  have t3: "trace ?s3 = trace s @ [Reserve_count, Lock_Threads_lock] @
      (if ASSERT b then [Set_skip_rank_order_check True] else [])"
    by (simp add: log_def set_skip_rank_order_check_def)
  show "trace s' = trace s @ [Reserve_count, Lock_Threads_lock] @
           (if ASSERT b then [Set_skip_rank_order_check True] else []) @
           map Do_thread (js @ ns) @
           (if ASSERT b then [Set_skip_rank_order_check False] else []) @
           [Unlock_Threads_lock, Finish_closure]"
    using s' t5 t4 t3 by (simp add: log_def set_skip_rank_order_check_def)
  show "skip_rank_order_check s' = (if ASSERT b then False else skip_rank_order_check s)"
    using s' k5 k4 by (simp add: log_def set_skip_rank_order_check_def)
qed

lemma serialize_set_fatal:
  assumes "ASSERT b" and "\<exists>t \<in> set (js @ ns). name t = None"
  shows "JfrThreadConstantSet_serialize b tgid current js ns (w, s) = Inl Assert_failed"
proof (cases "\<exists>t \<in> set js. name t = None")
  case True
  from do_threads_fatal [OF assms(1) True] show ?thesis
    by (simp add: JfrThreadConstantSet_serialize_def Let_def)
next
  case False
  with assms(2) have n: "\<exists>t \<in> set ns. name t = None" by auto
  let ?s3 = "if ASSERT b then set_skip_rank_order_check True (log Lock_Threads_lock (log Reserve_count s))
         else log Lock_Threads_lock (log Reserve_count s)"
  from False have "\<not> (ASSERT b \<and> (\<exists>t \<in> set js. name t = None))" by simp
  from do_threads_total [OF this, of tgid "new_closure current w" ?s3]
  obtain tc1 s4 where a: "do_threads b tgid js (new_closure current w, ?s3) = Inr (tc1, s4)"
    by (cases) auto
  from a do_threads_fatal [OF assms(1) n, of tgid tc1 s4] show ?thesis
    by (simp add: JfrThreadConstantSet_serialize_def Let_def)
qed

lemma u4_less_8:
  "j < (8::u4) \<Longrightarrow> j = 0 \<or> j = 1 \<or> j = 2 \<or> j = 3 \<or> j = 4 \<or> j = 5 \<or> j = 6 \<or> j = 7"
proof -
  assume "j < 8"
  then have "unat j < 8" by (simp add: word_less_nat_alt)
  then have "unat j = 0 \<or> unat j = 1 \<or> unat j = 2 \<or> unat j = 3 \<or> unat j = 4 \<or> unat j = 5
      \<or> unat j = 6 \<or> unat j = 7" by arith
  then show ?thesis by (auto simp: word_unat_eq_iff)
qed

lemma u4_less_6:
  "j < (6::u4) \<Longrightarrow> j = 0 \<or> j = 1 \<or> j = 2 \<or> j = 3 \<or> j = 4 \<or> j = 5"
proof -
  assume "j < 6"
  then have "unat j < 6" by (simp add: word_less_nat_alt)
  then have "unat j = 0 \<or> unat j = 1 \<or> unat j = 2 \<or> unat j = 3 \<or> unat j = 4 \<or> unat j = 5"
    by arith
  then show ?thesis by (auto simp: word_unat_eq_iff)
qed

lemma flags0_names:
  "\<forall>j. j < 7 + 1 \<longrightarrow> flag_value_origin_to_string (flags0 j) = Inr (flag_names0 j)"
proof (intro allI impI)
  fix j :: u4 assume "j < 7 + 1"
  then have "j < 8" by simp
  from u4_less_8 [OF this] show "flag_value_origin_to_string (flags0 j) = Inr (flag_names0 j)"
    by (auto simp: flags0_def flag_names0_def)
qed

lemma refs0_names:
  "\<forall>j. j < 5 + 1 \<longrightarrow> reference_type_to_string (refs0 j) = Inr (ref_names0 j)"
proof (intro allI impI)
  fix j :: u4 assume "j < 5 + 1"
  then have "j < 6" by simp
  from u4_less_6 [OF this] show "reference_type_to_string (refs0 j) = Inr (ref_names0 j)"
    by (auto simp: refs0_def ref_names0_def)
qed

lemma length_crowd: "length (crowd n @ []) = n"
  by (simp add: crowd_def)

lemma u4_wrap_0: "(word_of_nat 4294967296 :: u4) = 0"
  by simp

lemma u4_wrap_1: "(word_of_nat 4294967297 :: u4) = 1"
  by simp

lemma thread_entry_unfold:
  "thread_entry tgid current = (\<lambda>t. [Key (jfr_id t), Str (name t), Id (os_id t)] @
                        (if is_Java_thread t
                         then [Str (name t), Id (java_id t), Id (tgid t current)]
                         else [Str None, Id 0, Id 0]))"
  by (rule ext) (simp add: thread_entry_def)

lemma serialize_set_crowd:
  "\<exists>w' s'. JfrThreadConstantSet_serialize product_build tgid0 java10 (crowd n) [] (writer0, env0)
      = Inr (w', s')"
proof -
  have "\<not> (ASSERT product_build \<and> (\<exists>t \<in> set (crowd n @ []). name t = None))"
    by (simp add: product_build_def)
  from serialize_set_total [OF this] show ?thesis .
qed

lemma code_blob_Inr:
  "\<exists>w'. CodeBlobTypeConstant_serialize NumTypes All_value w = Inr w' \<and>
         cursor w' = cursor w + 3 \<and>
         same_below (cursor w) w w' \<and>
         cells_from (cursor w) w' = [Count NumTypes, Key (ucast All_value), Str (Some ''CodeCache'')]"
  by (simp add: CodeBlobTypeConstant_serialize_def write_key_def write_count_def
      cells_from_write_cell cursor_write_cell cells_from_cursor same_below_def
      buffer_write_cell_below)

lemma code_blob_writes_table:
  "writes_table 1 code_cache_names w (CodeBlobTypeConstant_serialize 1 0 w)"
proof -
  from code_blob_Inr [of 1 0 w] obtain w' where
    r: "CodeBlobTypeConstant_serialize 1 0 w = Inr w'" and
    cu: "cursor w' = cursor w + 3" and
    sb: "same_below (cursor w) w w'" and
    c: "cells_from (cursor w) w' = [Count 1, Key (ucast (0::u4)), Str (Some ''CodeCache'')]"
    by blast
  have le: "cursor w \<le> cursor w'" using cu by simp
  have te: "table_entries code_cache_names 0 (unat (1::u4)) = [Key 0, Str (Some ''CodeCache'')]"
    by (simp add: table_entries_def code_cache_names_def)
  show ?thesis using r cu contents_split [OF sb le] c te
    by (simp add: writes_table_def pool_entries_def pool_keys_def)
qed

lemma unchanged_not_table: "\<not> writes_table N names w (Inr w)"
  by (simp add: writes_table_def)

section \<open>The claims\<close>

text \<open>
  C5. For every thread it is given (in a debug build: every thread with a name),
  \<^verbatim>\<open>do_thread\<close> appends six fields of the same kinds in the same order, whatever the kind of
  the thread: a key, a string, an id, a string, an id and an id. For a thread that is not a
  Java thread the last three are written out as the \<^verbatim>\<open>NULL\<close> string, zero and zero.
\<close>

theorem do_thread_record_shape:
  assumes "\<not> (ASSERT b \<and> name t = None)"
  shows "\<exists>tc'. do_thread b tgid t tc = Inr tc' \<and>
     list_all2 same_kind (cells_from (cursor (tc_writer tc)) (tc_writer tc'))
        [Key 0, Str None, Id 0, Str None, Id 0, Id 0] \<and>
     (\<not> is_Java_thread t \<longrightarrow>
        drop 3 (cells_from (cursor (tc_writer tc)) (tc_writer tc')) = [Str None, Id 0, Id 0])"
proof -
  from do_thread_total [OF assms] obtain tc' where r: "do_thread b tgid t tc = Inr tc'" by blast
  have "cells_from (cursor (tc_writer tc)) (tc_writer tc') = thread_entry tgid (tc_curthread tc) t"
    using do_thread_Inr(7) [OF r, of "cursor (tc_writer tc)"] by (simp add: cells_from_cursor)
  with r show ?thesis by (simp add: thread_entry_def)
qed

theorem do_thread_record_shape_witness:
  "\<exists>tc'. do_thread debug_build tgid0 native5 (new_closure java10 writer0) = Inr tc' \<and>
     list_all2 same_kind
        (cells_from (cursor (tc_writer (new_closure java10 writer0))) (tc_writer tc'))
        [Key 0, Str None, Id 0, Str None, Id 0, Id 0] \<and>
     drop 3 (cells_from (cursor (tc_writer (new_closure java10 writer0))) (tc_writer tc'))
       = [Str None, Id 0, Id 0]"
proof -
  have h: "\<not> (ASSERT debug_build \<and> name native5 = None)" by (simp add: native5_def)
  have n: "\<not> is_Java_thread native5" by (simp add: native5_def)
  from do_thread_record_shape [OF h, of tgid0 "new_closure java10 writer0"] n
  show ?thesis by simp
qed

text \<open>
  C6. In the pool of the thread-set serializer the group id of every Java thread \<open>t\<close> is
  \<^verbatim>\<open>thread_group_id(t, current)\<close>, resolved by the thread that runs the serializer and
  was captured when the closure was built; the single-thread serializer writes, as the
  seventh field of its pool, \<^verbatim>\<open>thread_group_id(t, t)\<close>, the subject resolving for itself.
\<close>

theorem group_id_resolution:
  assumes "\<not> (ASSERT b \<and> (\<exists>t \<in> set (js @ ns). name t = None))"
    and "js @ ns \<noteq> []"
    and "length (js @ ns) < 2 ^ 32"
    and "\<not> (ASSERT b \<and> addr thread0 \<noteq> addr caller)"
    and "is_Java_thread thread0"
  shows "(\<exists>w' s'. JfrThreadConstantSet_serialize b tgid current js ns (w, s) = Inr (w', s') \<and>
            tl (cells_from (cursor w) w') =
              concat (map (\<lambda>t. [Key (jfr_id t), Str (name t), Id (os_id t)] @
                                (if is_Java_thread t
                                 then [Str (name t), Id (java_id t), Id (tgid t current)]
                                 else [Str None, Id 0, Id 0])) (js @ ns)))
       \<and> (\<exists>v'. JfrThreadConstant_serialize b tgid caller thread0 v = Inr v' \<and>
            cells_from (cursor v) v' ! 6 = Id (tgid thread0 thread0))"
proof
  from serialize_set_total [OF assms(1)] obtain w' s' where
    r: "JfrThreadConstantSet_serialize b tgid current js ns (w, s) = Inr (w', s')" by blast
  have nz: "(word_of_nat (length (js @ ns)) :: u4) \<noteq> 0"
    using u4_of_nat_eq_0 [OF assms(3)] assms(2) by simp
  have "tl (cells_from (cursor w) w') = concat (map (thread_entry tgid current) (js @ ns))"
    using serialize_set_patch(2) [OF r nz] by simp
  also have "thread_entry tgid current = (\<lambda>t. [Key (jfr_id t), Str (name t), Id (os_id t)] @
                                (if is_Java_thread t
                                 then [Str (name t), Id (java_id t), Id (tgid t current)]
                                 else [Str None, Id 0, Id 0]))"
    by (rule ext) (simp add: thread_entry_def)
  finally show "\<exists>w' s'. JfrThreadConstantSet_serialize b tgid current js ns (w, s) = Inr (w', s') \<and>
            tl (cells_from (cursor w) w') =
              concat (map (\<lambda>t. [Key (jfr_id t), Str (name t), Id (os_id t)] @
                                (if is_Java_thread t
                                 then [Str (name t), Id (java_id t), Id (tgid t current)]
                                 else [Str None, Id 0, Id 0])) (js @ ns))"
    using r by blast
next
  from self_serialize_Inr [OF assms(4), of tgid v] obtain v' where
    r: "JfrThreadConstant_serialize b tgid caller thread0 v = Inr v'" and
    c: "cells_from (cursor v) v' = self_fields tgid thread0" by blast
  have "self_fields tgid thread0 ! 6 = Id (tgid thread0 thread0)"
    using assms(5) by (simp add: self_fields_def thread_entry_def)
  with r c show "\<exists>v'. JfrThreadConstant_serialize b tgid caller thread0 v = Inr v' \<and>
            cells_from (cursor v) v' ! 6 = Id (tgid thread0 thread0)" by simp
qed

text \<open>
  C7. The single-thread serializer returns, for a Java thread and for any other thread,
  with the cursor advanced, the earlier contents kept, the count field 1 at the head of its
  pool and one entry behind it. In a debug build this needs \<^verbatim>\<open>_thread\<close> to be the calling
  thread, which the serializer asserts.
\<close>

theorem self_count_is_one:
  assumes "\<not> (ASSERT b \<and> addr thread0 \<noteq> addr current)"
  shows "\<exists>w'. JfrThreadConstant_serialize b tgid current thread0 w = Inr w' \<and>
           cursor w < cursor w' \<and>
           contents w' = contents w @ cells_from (cursor w) w' \<and>
           pool_count (cells_from (cursor w) w') = Some 1 \<and>
           pool_entries (cells_from (cursor w) w') = 1"
proof -
  from self_serialize_Inr [OF assms, of tgid w] obtain w' where
    r: "JfrThreadConstant_serialize b tgid current thread0 w = Inr w'" and
    cu: "cursor w' = cursor w + length (self_fields tgid thread0)" and
    sb: "same_below (cursor w) w w'" and
    c: "cells_from (cursor w) w' = self_fields tgid thread0" by blast
  have lt: "cursor w < cursor w'" using cu by (simp add: self_fields_def)
  then have le: "cursor w \<le> cursor w'" by simp
  have pc: "pool_count (self_fields tgid thread0) = Some 1" by (simp add: self_fields_def)
  have pe: "pool_entries (self_fields tgid thread0) = 1"
    by (simp add: self_fields_def pool_entries_def thread_entry_def)
  from r lt contents_split [OF sb le] pc pe c show ?thesis by simp
qed

text \<open>
  C10. The pool of the single-thread serializer holds the nested group-chain record if and
  only if the thread is a Java thread; for any other thread the pool is the count 1, the
  key, the name, the OS id, the \<^verbatim>\<open>NULL\<close> string, zero and zero, and nothing else.
\<close>

theorem self_group_chain_iff_java:
  assumes "\<not> (ASSERT b \<and> addr thread0 \<noteq> addr current)"
  shows "\<exists>w'. JfrThreadConstant_serialize b tgid current thread0 w = Inr w' \<and>
           ((\<exists>g. Group_chain g \<in> set (cells_from (cursor w) w')) \<longleftrightarrow> is_Java_thread thread0) \<and>
           (\<not> is_Java_thread thread0 \<longrightarrow>
              cells_from (cursor w) w' =
                [Count 1, Key (jfr_id thread0), Str (name thread0), Id (os_id thread0),
                 Str None, Id 0, Id 0])"
proof -
  from self_serialize_Inr [OF assms, of tgid w] obtain w' where
    r: "JfrThreadConstant_serialize b tgid current thread0 w = Inr w'" and
    c: "cells_from (cursor w) w' = self_fields tgid thread0" by blast
  have g: "(\<exists>g. Group_chain g \<in> set (self_fields tgid thread0)) \<longleftrightarrow> is_Java_thread thread0"
    by (auto simp: self_fields_def thread_entry_def)
  have n: "\<not> is_Java_thread thread0 \<longrightarrow> self_fields tgid thread0 =
                [Count 1, Key (jfr_id thread0), Str (name thread0), Id (os_id thread0),
                 Str None, Id 0, Id 0]"
    by (simp add: self_fields_def thread_entry_def)
  from r c g n show ?thesis by simp
qed

theorem group_id_resolution_witness:
  "(\<exists>w' s'. JfrThreadConstantSet_serialize debug_build tgid0 java10 [java10, java11] [native5]
              (writer0, env0) = Inr (w', s') \<and>
            tl (cells_from (cursor writer0) w') =
              concat (map (\<lambda>t. [Key (jfr_id t), Str (name t), Id (os_id t)] @
                                (if is_Java_thread t
                                 then [Str (name t), Id (java_id t), Id (tgid0 t java10)]
                                 else [Str None, Id 0, Id 0])) ([java10, java11] @ [native5])))
       \<and> (\<exists>v'. JfrThreadConstant_serialize debug_build tgid0 java11 java11 writer0 = Inr v' \<and>
            cells_from (cursor writer0) v' ! 6 = Id (tgid0 java11 java11))"
proof -
  have h1: "\<not> (ASSERT debug_build \<and> (\<exists>t \<in> set ([java10, java11] @ [native5]). name t = None))"
    by (simp add: java10_def java11_def native5_def)
  have h2: "[java10, java11] @ [native5] \<noteq> []" by simp
  have h3: "length ([java10, java11] @ [native5]) < 2 ^ 32" by simp
  have h4: "\<not> (ASSERT debug_build \<and> addr java11 \<noteq> addr java11)" by simp
  have h5: "is_Java_thread java11" by (simp add: java11_def)
  show ?thesis
    by (rule group_id_resolution [OF h1 h2 h3 h4 h5])
qed

theorem self_count_is_one_witness:
  "\<exists>w'. JfrThreadConstant_serialize debug_build tgid0 native5 native5 writer0 = Inr w' \<and>
           cursor writer0 < cursor w' \<and>
           contents w' = contents writer0 @ cells_from (cursor writer0) w' \<and>
           pool_count (cells_from (cursor writer0) w') = Some 1 \<and>
           pool_entries (cells_from (cursor writer0) w') = 1"
proof -
  have h: "\<not> (ASSERT debug_build \<and> addr native5 \<noteq> addr native5)" by simp
  show ?thesis by (rule self_count_is_one [OF h])
qed

theorem self_group_chain_iff_java_witness:
  "\<exists>w'. JfrThreadConstant_serialize debug_build tgid0 native5 native5 writer0 = Inr w' \<and>
           \<not> (\<exists>g. Group_chain g \<in> set (cells_from (cursor writer0) w')) \<and>
           cells_from (cursor writer0) w' =
                [Count 1, Key 5, Str (Some ''VM Thread''), Id 102, Str None, Id 0, Id 0]"
proof -
  have h: "\<not> (ASSERT debug_build \<and> addr native5 \<noteq> addr native5)" by simp
  have n: "\<not> is_Java_thread native5" "jfr_id native5 = 5" "name native5 = Some ''VM Thread''"
    "os_id native5 = 102" by (simp_all add: native5_def)
  from self_group_chain_iff_java [OF h, of tgid0 writer0] n
  show ?thesis by auto
qed

text \<open>
  C3 as stated fails. A build without the optional collectors: the G1 young-collection table writes no count
  field, the writer comes back as it was.
\<close>

theorem gated_table_absent_counterexample:
  "G1YCTypeConstant_serialize minimal_build 3 lookup0 writer0 = Inr writer0 \<and>
   contents writer0 = [] \<and> pool_count (contents writer0) \<noteq> Some 0"
  by (simp add: G1YCTypeConstant_serialize_def minimal_build_def contents_def cells_from_def
      writer0_def)

text \<open>
  C3, as the code has it. The bodies of \<^verbatim>\<open>G1YCTypeConstant::serialize\<close> and
  \<^verbatim>\<open>CompilerPhaseTypeConstant::serialize\<close> are wholly inside \<^verbatim>\<open>#if INCLUDE_ALL_GCS\<close>
  and \<^verbatim>\<open>#ifdef COMPILER2\<close>: when the capability is absent the serializer returns the writer
  unchanged, and no field, the count included, lies between the old cursor and the new.
\<close>

theorem gated_table_absent:
  "(\<not> INCLUDE_ALL_GCS b \<longrightarrow> G1YCTypeConstant_serialize b N to_string w = Inr w) \<and>
   (\<not> COMPILER2 b \<longrightarrow> CompilerPhaseTypeConstant_serialize b N to_string w = Inr w) \<and>
   cells_from (cursor w) w = []"
  by (simp add: G1YCTypeConstant_serialize_def CompilerPhaseTypeConstant_serialize_def
      cells_from_def)

theorem gated_table_absent_witness:
  "G1YCTypeConstant_serialize minimal_build 3 lookup0 writer0 = Inr writer0 \<and>
   CompilerPhaseTypeConstant_serialize minimal_build 3 lookup0 writer0 = Inr writer0 \<and>
   cells_from (cursor writer0) writer0 = []"
proof -
  have h: "\<not> INCLUDE_ALL_GCS minimal_build" "\<not> COMPILER2 minimal_build"
    by (simp_all add: minimal_build_def)
  from gated_table_absent [of minimal_build 3 lookup0 writer0] h show ?thesis by simp
qed

text \<open>
  C8. \<^verbatim>\<open>CodeBlobTypeConstant::serialize\<close> writes, for any value of
  \<^verbatim>\<open>CodeBlobType::NumTypes\<close>, the count field followed by one key,
  \<^verbatim>\<open>CodeBlobType::All\<close>, and one name: its pool has exactly one entry.
\<close>

theorem code_blob_type_single_entry:
  "\<exists>w'. CodeBlobTypeConstant_serialize NumTypes All_value w = Inr w' \<and>
         cells_from (cursor w) w' = [Count NumTypes, Key (ucast All_value), Str (Some ''CodeCache'')] \<and>
         pool_entries (cells_from (cursor w) w') = 1 \<and>
         pool_keys (cells_from (cursor w) w') = [ucast All_value]"
  by (simp add: CodeBlobTypeConstant_serialize_def write_key_def write_count_def
      cells_from_write_cell cursor_write_cell cells_from_cursor pool_entries_def pool_keys_def)

text \<open>
  C9 as stated fails. The events of a debug-build run over one Java thread: the registry lock is taken before
  the flag is set.
\<close>

theorem skip_rank_order_check_counterexample:
  "trace_of (JfrThreadConstantSet_serialize debug_build tgid0 java10 [java10] [] (writer0, env0))
     = [Reserve_count, Lock_Threads_lock, Set_skip_rank_order_check True, Do_thread java10,
        Set_skip_rank_order_check False, Unlock_Threads_lock, Finish_closure]"
proof -
  have h: "\<not> (ASSERT debug_build \<and> (\<exists>t \<in> set ([java10] @ []). name t = None))"
    by (simp add: java10_def)
  from serialize_set_total [OF h, of tgid0 java10 writer0 env0] obtain w' s' where
    r: "JfrThreadConstantSet_serialize debug_build tgid0 java10 [java10] [] (writer0, env0) = Inr (w', s')"
    by blast
  from serialize_set_trace(1) [OF r] r show ?thesis
    by (simp add: trace_of_def debug_build_def env0_def)
qed

text \<open>
  C9, as the code has it. When the serializer returns, its events are, in this order: the
  count slot is reserved, \<^verbatim>\<open>Threads_lock\<close> is acquired, in a debug build the flag is set,
  the Java threads and then the other threads are visited, in a debug build the flag is
  cleared, the lock is released and the closure is finished; the flag is then false in a
  debug build and untouched in a product build. In a debug build a thread without a name
  stops the run with a failed assertion instead of a return.
\<close>

theorem skip_rank_order_check_scope:
  "(\<not> (ASSERT b \<and> (\<exists>t \<in> set (js @ ns). name t = None)) \<longrightarrow>
      (\<exists>w' s'. JfrThreadConstantSet_serialize b tgid current js ns (w, s) = Inr (w', s') \<and>
         trace s' = trace s @ [Reserve_count, Lock_Threads_lock] @
           (if ASSERT b then [Set_skip_rank_order_check True] else []) @
           map Do_thread (js @ ns) @
           (if ASSERT b then [Set_skip_rank_order_check False] else []) @
           [Unlock_Threads_lock, Finish_closure] \<and>
         skip_rank_order_check s' = (if ASSERT b then False else skip_rank_order_check s))) \<and>
   (ASSERT b \<and> (\<exists>t \<in> set (js @ ns). name t = None) \<longrightarrow>
      JfrThreadConstantSet_serialize b tgid current js ns (w, s) = Inl Assert_failed)"
proof (intro conjI impI)
  assume h: "\<not> (ASSERT b \<and> (\<exists>t \<in> set (js @ ns). name t = None))"
  from serialize_set_total [OF h, of tgid current w s] obtain w' s' where
    r: "JfrThreadConstantSet_serialize b tgid current js ns (w, s) = Inr (w', s')" by blast
  from r serialize_set_trace [OF r]
  show "\<exists>w' s'. JfrThreadConstantSet_serialize b tgid current js ns (w, s) = Inr (w', s') \<and>
         trace s' = trace s @ [Reserve_count, Lock_Threads_lock] @
           (if ASSERT b then [Set_skip_rank_order_check True] else []) @
           map Do_thread (js @ ns) @
           (if ASSERT b then [Set_skip_rank_order_check False] else []) @
           [Unlock_Threads_lock, Finish_closure] \<and>
         skip_rank_order_check s' = (if ASSERT b then False else skip_rank_order_check s)"
    by blast
next
  assume "ASSERT b \<and> (\<exists>t \<in> set (js @ ns). name t = None)"
  then show "JfrThreadConstantSet_serialize b tgid current js ns (w, s) = Inl Assert_failed"
    using serialize_set_fatal by blast
qed

theorem skip_rank_order_check_scope_witness:
  "(\<exists>w' s'. JfrThreadConstantSet_serialize debug_build tgid0 java10 [java10, java11] [native5]
        (writer0, env0) = Inr (w', s') \<and>
      trace s' = [Reserve_count, Lock_Threads_lock, Set_skip_rank_order_check True,
                  Do_thread java10, Do_thread java11, Do_thread native5,
                  Set_skip_rank_order_check False, Unlock_Threads_lock, Finish_closure] \<and>
      skip_rank_order_check s' = False) \<and>
   (\<exists>w' s'. JfrThreadConstantSet_serialize product_build tgid0 java10 [java10] [unnamed7]
        (writer0, env0) = Inr (w', s') \<and>
      trace s' = [Reserve_count, Lock_Threads_lock, Do_thread java10, Do_thread unnamed7,
                  Unlock_Threads_lock, Finish_closure] \<and>
      skip_rank_order_check s' = False) \<and>
   JfrThreadConstantSet_serialize debug_build tgid0 java10 [java10] [unnamed7] (writer0, env0)
     = Inl Assert_failed"
proof (intro conjI)
  have h: "\<not> (ASSERT debug_build \<and> (\<exists>t \<in> set ([java10, java11] @ [native5]). name t = None))"
    by (simp add: java10_def java11_def native5_def)
  have d: "ASSERT debug_build" by (simp add: debug_build_def)
  from skip_rank_order_check_scope [of debug_build "[java10, java11]" "[native5]" tgid0 java10
      writer0 env0] h d
  show "\<exists>w' s'. JfrThreadConstantSet_serialize debug_build tgid0 java10 [java10, java11] [native5]
        (writer0, env0) = Inr (w', s') \<and>
      trace s' = [Reserve_count, Lock_Threads_lock, Set_skip_rank_order_check True,
                  Do_thread java10, Do_thread java11, Do_thread native5,
                  Set_skip_rank_order_check False, Unlock_Threads_lock, Finish_closure] \<and>
      skip_rank_order_check s' = False"
    by (simp add: env0_def)
next
  have p: "\<not> ASSERT product_build" by (simp add: product_build_def)
  from skip_rank_order_check_scope [of product_build "[java10]" "[unnamed7]" tgid0 java10
      writer0 env0] p
  show "\<exists>w' s'. JfrThreadConstantSet_serialize product_build tgid0 java10 [java10] [unnamed7]
        (writer0, env0) = Inr (w', s') \<and>
      trace s' = [Reserve_count, Lock_Threads_lock, Do_thread java10, Do_thread unnamed7,
                  Unlock_Threads_lock, Finish_closure] \<and>
      skip_rank_order_check s' = False"
    by (simp add: env0_def)
next
  have d: "ASSERT debug_build" by (simp add: debug_build_def)
  have n: "\<exists>t \<in> set ([java10] @ [unnamed7]). name t = None" by (simp add: unnamed7_def)
  from skip_rank_order_check_scope [of debug_build "[java10]" "[unnamed7]" tgid0 java10
      writer0 env0] d n
  show "JfrThreadConstantSet_serialize debug_build tgid0 java10 [java10] [unnamed7] (writer0, env0)
     = Inl Assert_failed"
    by blast
qed

text \<open>
  C2 as stated fails. With \<open>2^32\<close> threads the \<^verbatim>\<open>u4\<close> tally is back at zero when the
  destructor runs: elements were observed, and the writer is rolled back to the cursor from
  before the pool.
\<close>

theorem thread_set_finalization_counterexample:
  "length (crowd 4294967296) = 4294967296 \<and>
   set_cursor (JfrThreadConstantSet_serialize product_build tgid0 java10 (crowd 4294967296) []
                 (writer0, env0)) = Some (cursor writer0)"
proof -
  from serialize_set_crowd [of 4294967296] obtain w' s' where
    r: "JfrThreadConstantSet_serialize product_build tgid0 java10 (crowd 4294967296) []
          (writer0, env0) = Inr (w', s')" by blast
  have z: "(word_of_nat (length (crowd 4294967296 @ [])) :: u4) = 0"
    unfolding length_crowd by (rule u4_wrap_0)
  from serialize_set_rollback(1) [OF r z] r length_crowd [of 4294967296]
  show ?thesis by (simp add: set_cursor_def)
qed

text \<open>
  C2, as the code has it. The destructor decides on the \<^verbatim>\<open>u4\<close> tally, the number of
  elements modulo \<open>2^32\<close>. When the tally is zero it restores the context captured before
  the count slot was reserved: the cursor and the context are those from before the pool and
  the contents before the cursor are unchanged, so nothing of the pool remains, the reserved
  slot included. Otherwise it does not roll back: the earlier contents are kept, the pool
  is the tally in the reserved slot followed by the six fields of every element in
  iteration order, and the cursor stands behind the last of them. For fewer than \<open>2^32\<close>
  elements the tally is zero only for no element and is the number of elements. In a debug
  build the call returns only if no element has a \<^verbatim>\<open>NULL\<close> name.
\<close>

theorem thread_set_finalization:
  assumes "\<not> (ASSERT b \<and> (\<exists>t \<in> set (js @ ns). name t = None))"
  shows "\<exists>w' s'. JfrThreadConstantSet_serialize b tgid current js ns (w, s) = Inr (w', s') \<and>
      (if (word_of_nat (length (js @ ns)) :: u4) = 0
       then cursor w' = cursor w \<and> context_of w' = context_of w \<and> contents w' = contents w
       else cursor w' = cursor w + 1 + 6 * length (js @ ns) \<and>
            contents w' = contents w @ cells_from (cursor w) w' \<and>
            cells_from (cursor w) w' =
              Count (word_of_nat (length (js @ ns))) #
              concat (map (\<lambda>t. [Key (jfr_id t), Str (name t), Id (os_id t)] @
                        (if is_Java_thread t
                         then [Str (name t), Id (java_id t), Id (tgid t current)]
                         else [Str None, Id 0, Id 0])) (js @ ns))) \<and>
      (length (js @ ns) < 2 ^ 32 \<longrightarrow>
         ((word_of_nat (length (js @ ns)) :: u4) = 0 \<longleftrightarrow> js @ ns = []) \<and>
         unat (word_of_nat (length (js @ ns)) :: u4) = length (js @ ns))"
proof -
  from serialize_set_total [OF assms] obtain w' s' where
    r: "JfrThreadConstantSet_serialize b tgid current js ns (w, s) = Inr (w', s')" by blast
  have small: "length (js @ ns) < 2 ^ 32 \<longrightarrow>
         ((word_of_nat (length (js @ ns)) :: u4) = 0 \<longleftrightarrow> js @ ns = []) \<and>
         unat (word_of_nat (length (js @ ns)) :: u4) = length (js @ ns)"
    using u4_of_nat_eq_0 [of "length (js @ ns)"] u4_unat_of_nat [of "length (js @ ns)"] by simp
  show ?thesis
  proof (cases "(word_of_nat (length (js @ ns)) :: u4) = 0")
    case True
    from serialize_set_rollback [OF r True] r True small show ?thesis by auto
  next
    case False
    note h = serialize_set_patch [OF r False]
    have le: "cursor w \<le> cursor w'" using h(1) by simp
    have c: "cells_from (cursor w) w' =
              Count (word_of_nat (length (js @ ns))) #
              concat (map (\<lambda>t. [Key (jfr_id t), Str (name t), Id (os_id t)] @
                        (if is_Java_thread t
                         then [Str (name t), Id (java_id t), Id (tgid t current)]
                         else [Str None, Id 0, Id 0])) (js @ ns))"
      using h(2) by (simp only: thread_entry_unfold)
    from r False h(1) contents_split [OF h(3) le] c small show ?thesis by auto
  qed
qed

theorem thread_set_finalization_witness:
  "(\<exists>w' s'. JfrThreadConstantSet_serialize debug_build tgid0 java10 [] [] (writer0, env0) = Inr (w', s') \<and>
      cursor w' = cursor writer0 \<and> context_of w' = context_of writer0 \<and> contents w' = contents writer0)
   \<and> (\<exists>w' s'. JfrThreadConstantSet_serialize debug_build tgid0 java10 [java10, java11] [native5]
          (writer0, env0) = Inr (w', s') \<and>
      cursor w' = cursor writer0 + 19 \<and>
      contents w' = contents writer0 @ cells_from (cursor writer0) w' \<and>
      cells_from (cursor writer0) w' =
        Count 3 #
        concat (map (\<lambda>t. [Key (jfr_id t), Str (name t), Id (os_id t)] @
                        (if is_Java_thread t
                         then [Str (name t), Id (java_id t), Id (tgid0 t java10)]
                         else [Str None, Id 0, Id 0])) [java10, java11, native5]))"
proof
  have h1: "\<not> (ASSERT debug_build \<and> (\<exists>t \<in> set ([] @ []). name t = None))" by simp
  from thread_set_finalization [OF h1, of tgid0 java10 writer0 env0]
  show "\<exists>w' s'. JfrThreadConstantSet_serialize debug_build tgid0 java10 [] [] (writer0, env0) = Inr (w', s') \<and>
      cursor w' = cursor writer0 \<and> context_of w' = context_of writer0 \<and> contents w' = contents writer0"
    by simp
next
  have h1: "\<not> (ASSERT debug_build \<and> (\<exists>t \<in> set ([java10, java11] @ [native5]). name t = None))"
    by (simp add: java10_def java11_def native5_def)
  have nz: "(word_of_nat (length ([java10, java11] @ [native5])) :: u4) \<noteq> 0" by simp
  have three: "(word_of_nat (length [java10, java11, native5]) :: u4) = 3" by simp
  have app: "[java10, java11] @ [native5] = [java10, java11, native5]" by simp
  from thread_set_finalization [OF h1, of tgid0 java10 writer0 env0] obtain w' s' where
    r: "JfrThreadConstantSet_serialize debug_build tgid0 java10 [java10, java11] [native5]
          (writer0, env0) = Inr (w', s')" and
    c: "if (word_of_nat (length ([java10, java11] @ [native5])) :: u4) = 0
       then cursor w' = cursor writer0 \<and> context_of w' = context_of writer0 \<and>
            contents w' = contents writer0
       else cursor w' = cursor writer0 + 1 + 6 * length ([java10, java11] @ [native5]) \<and>
            contents w' = contents writer0 @ cells_from (cursor writer0) w' \<and>
            cells_from (cursor writer0) w' =
              Count (word_of_nat (length ([java10, java11] @ [native5]))) #
              concat (map (\<lambda>t. [Key (jfr_id t), Str (name t), Id (os_id t)] @
                        (if is_Java_thread t
                         then [Str (name t), Id (java_id t), Id (tgid0 t java10)]
                         else [Str None, Id 0, Id 0])) ([java10, java11] @ [native5]))"
    by blast
  from c nz have
    c1: "cursor w' = cursor writer0 + 1 + 6 * length ([java10, java11] @ [native5])" and
    c2: "contents w' = contents writer0 @ cells_from (cursor writer0) w'" and
    c3: "cells_from (cursor writer0) w' =
              Count (word_of_nat (length ([java10, java11] @ [native5]))) #
              concat (map (\<lambda>t. [Key (jfr_id t), Str (name t), Id (os_id t)] @
                        (if is_Java_thread t
                         then [Str (name t), Id (java_id t), Id (tgid0 t java10)]
                         else [Str None, Id 0, Id 0])) ([java10, java11] @ [native5]))"
    by (simp_all only: if_False)
  from c1 have d1: "cursor w' = cursor writer0 + 19" by simp
  from c3 have d3: "cells_from (cursor writer0) w' =
        Count 3 #
        concat (map (\<lambda>t. [Key (jfr_id t), Str (name t), Id (os_id t)] @
                        (if is_Java_thread t
                         then [Str (name t), Id (java_id t), Id (tgid0 t java10)]
                         else [Str None, Id 0, Id 0])) [java10, java11, native5])"
    by (simp only: app three)
  from r d1 c2 d3
  show "\<exists>w' s'. JfrThreadConstantSet_serialize debug_build tgid0 java10 [java10, java11] [native5]
          (writer0, env0) = Inr (w', s') \<and>
      cursor w' = cursor writer0 + 19 \<and>
      contents w' = contents writer0 @ cells_from (cursor writer0) w' \<and>
      cells_from (cursor writer0) w' =
        Count 3 #
        concat (map (\<lambda>t. [Key (jfr_id t), Str (name t), Id (os_id t)] @
                        (if is_Java_thread t
                         then [Str (name t), Id (java_id t), Id (tgid0 t java10)]
                         else [Str None, Id 0, Id 0])) [java10, java11, native5])"
    by blast
qed

text \<open>
  C4 as stated fails. In a build without the optional compiler the compiler phase table
  writes no pool at all, whether its enumeration has no value or three.
\<close>

theorem static_table_counterexample:
  "CompilerPhaseTypeConstant_serialize minimal_build 0 lookup0 writer0 = Inr writer0 \<and>
   written writer0 (CompilerPhaseTypeConstant_serialize minimal_build 0 lookup0 writer0) = [] \<and>
   \<not> writes_table 0 names0 writer0
       (CompilerPhaseTypeConstant_serialize minimal_build 0 lookup0 writer0) \<and>
   \<not> writes_table 3 names0 writer0
       (CompilerPhaseTypeConstant_serialize minimal_build 3 lookup0 writer0)"
  by (simp add: CompilerPhaseTypeConstant_serialize_def minimal_build_def written_def
      cells_from_cursor unchanged_not_table)

text \<open>
  C4, as the code has it. Every table serializer whose name lookup succeeds on the
  ordinals below the cardinality \<open>N\<close>, the two gated ones when their capability is compiled
  in, returns with the cursor advanced and the earlier contents kept (no rollback), having
  written the count \<open>N\<close> and then \<open>N\<close> entries whose keys are \<open>0, 1, ..., N - 1\<close> in this
  order, each followed by its name (\<open>writes_table\<close>); so does the code blob table when
  \<^verbatim>\<open>CodeBlobType::NumTypes\<close> is 1 and \<^verbatim>\<open>CodeBlobType::All\<close> is 0. A gated table whose
  capability is absent does not, for any \<open>N\<close>.
\<close>

theorem static_table_ordinals:
  assumes "\<forall>j. j < N \<longrightarrow> to_string j = Inr (names j)"
    and "\<forall>j. j < L + 1 \<longrightarrow> flag_value_origin_to_string (cast j) = Inr (fnames j)"
    and "\<forall>j. j < R + 1 \<longrightarrow> reference_type_to_string (rcast j) = Inr (rnames j)"
    and "\<forall>j. j < H + 1 \<longrightarrow> mode_to_string j = Inr (mnames j)"
  shows "writes_table N names w (MonitorInflateCauseConstant_serialize N to_string w) \<and>
         writes_table N names w (GCCauseConstant_serialize N to_string w) \<and>
         writes_table N names w (GCNameConstant_serialize N to_string w) \<and>
         writes_table N names w (GCWhenConstant_serialize N to_string w) \<and>
         writes_table N names w (G1HeapRegionTypeConstant_serialize N to_string w) \<and>
         writes_table N names w (GCThresholdUpdaterConstant_serialize N to_string w) \<and>
         writes_table N names w (MetadataTypeConstant_serialize N to_string w) \<and>
         writes_table N names w (MetaspaceObjectTypeConstant_serialize N to_string w) \<and>
         writes_table N names w (VMOperationTypeConstant_serialize N to_string w) \<and>
         (INCLUDE_ALL_GCS b \<longrightarrow> writes_table N names w (G1YCTypeConstant_serialize b N to_string w)) \<and>
         (COMPILER2 b \<longrightarrow> writes_table N names w (CompilerPhaseTypeConstant_serialize b N to_string w)) \<and>
         writes_table (L + 1) fnames w (FlagValueOriginConstant_serialize L cast w) \<and>
         writes_table (R + 1) rnames w (ReferenceTypeConstant_serialize R rcast w) \<and>
         writes_table (H + 1) mnames w (NarrowOopModeConstant_serialize H mode_to_string w) \<and>
         (NumTypes = 1 \<and> All_value = 0 \<longrightarrow>
            writes_table NumTypes code_cache_names w
              (CodeBlobTypeConstant_serialize NumTypes All_value w)) \<and>
         (\<not> INCLUDE_ALL_GCS b \<longrightarrow>
            \<not> writes_table N names w (G1YCTypeConstant_serialize b N to_string w)) \<and>
         (\<not> COMPILER2 b \<longrightarrow>
            \<not> writes_table N names w (CompilerPhaseTypeConstant_serialize b N to_string w))"
proof -
  note t = serialize_table_writes [OF assms(1), of w]
  have c0: "writes_table N names w (MonitorInflateCauseConstant_serialize N to_string w)"
    unfolding MonitorInflateCauseConstant_serialize_def by (rule t)
  have c1: "writes_table N names w (GCCauseConstant_serialize N to_string w)"
    unfolding GCCauseConstant_serialize_def by (rule t)
  have c2: "writes_table N names w (GCNameConstant_serialize N to_string w)"
    unfolding GCNameConstant_serialize_def by (rule t)
  have c3: "writes_table N names w (GCWhenConstant_serialize N to_string w)"
    unfolding GCWhenConstant_serialize_def by (rule t)
  have c4: "writes_table N names w (G1HeapRegionTypeConstant_serialize N to_string w)"
    unfolding G1HeapRegionTypeConstant_serialize_def by (rule t)
  have c5: "writes_table N names w (GCThresholdUpdaterConstant_serialize N to_string w)"
    unfolding GCThresholdUpdaterConstant_serialize_def by (rule t)
  have c6: "writes_table N names w (MetadataTypeConstant_serialize N to_string w)"
    unfolding MetadataTypeConstant_serialize_def by (rule t)
  have c7: "writes_table N names w (MetaspaceObjectTypeConstant_serialize N to_string w)"
    unfolding MetaspaceObjectTypeConstant_serialize_def by (rule t)
  have c8: "writes_table N names w (VMOperationTypeConstant_serialize N to_string w)"
    unfolding VMOperationTypeConstant_serialize_def by (rule t)
  have g1: "(INCLUDE_ALL_GCS b \<longrightarrow> writes_table N names w (G1YCTypeConstant_serialize b N to_string w))"
    using t by (simp add: G1YCTypeConstant_serialize_def)
  have g2: "(COMPILER2 b \<longrightarrow> writes_table N names w (CompilerPhaseTypeConstant_serialize b N to_string w))"
    using t by (simp add: CompilerPhaseTypeConstant_serialize_def)
  have p1: "writes_table (L + 1) fnames w (FlagValueOriginConstant_serialize L cast w)"
    unfolding FlagValueOriginConstant_serialize_def by (rule serialize_table_writes [OF assms(2)])
  have p2: "writes_table (R + 1) rnames w (ReferenceTypeConstant_serialize R rcast w)"
    unfolding ReferenceTypeConstant_serialize_def by (rule serialize_table_writes [OF assms(3)])
  have p3: "writes_table (H + 1) mnames w (NarrowOopModeConstant_serialize H mode_to_string w)"
    unfolding NarrowOopModeConstant_serialize_def by (rule serialize_table_writes [OF assms(4)])
  have cb: "NumTypes = 1 \<and> All_value = 0 \<longrightarrow>
            writes_table NumTypes code_cache_names w
              (CodeBlobTypeConstant_serialize NumTypes All_value w)"
    using code_blob_writes_table [of w] by simp
  have n1: "\<not> INCLUDE_ALL_GCS b \<longrightarrow>
            \<not> writes_table N names w (G1YCTypeConstant_serialize b N to_string w)"
    by (simp add: G1YCTypeConstant_serialize_def unchanged_not_table)
  have n2: "\<not> COMPILER2 b \<longrightarrow>
            \<not> writes_table N names w (CompilerPhaseTypeConstant_serialize b N to_string w)"
    by (simp add: CompilerPhaseTypeConstant_serialize_def unchanged_not_table)
  from c0 c1 c2 c3 c4 c5 c6 c7 c8 g1 g2 p1 p2 p3 cb n1 n2 show ?thesis by blast
qed

theorem static_table_ordinals_witness:
  "writes_table 3 names0 writer0 (MonitorInflateCauseConstant_serialize 3 lookup0 writer0) \<and>
   writes_table 3 names0 writer0 (GCCauseConstant_serialize 3 lookup0 writer0) \<and>
   writes_table 3 names0 writer0 (GCNameConstant_serialize 3 lookup0 writer0) \<and>
   writes_table 3 names0 writer0 (GCWhenConstant_serialize 3 lookup0 writer0) \<and>
   writes_table 3 names0 writer0 (G1HeapRegionTypeConstant_serialize 3 lookup0 writer0) \<and>
   writes_table 3 names0 writer0 (GCThresholdUpdaterConstant_serialize 3 lookup0 writer0) \<and>
   writes_table 3 names0 writer0 (MetadataTypeConstant_serialize 3 lookup0 writer0) \<and>
   writes_table 3 names0 writer0 (MetaspaceObjectTypeConstant_serialize 3 lookup0 writer0) \<and>
   writes_table 3 names0 writer0 (VMOperationTypeConstant_serialize 3 lookup0 writer0) \<and>
   writes_table 3 names0 writer0 (G1YCTypeConstant_serialize debug_build 3 lookup0 writer0) \<and>
   writes_table 3 names0 writer0 (CompilerPhaseTypeConstant_serialize debug_build 3 lookup0 writer0) \<and>
   writes_table (7 + 1) flag_names0 writer0 (FlagValueOriginConstant_serialize 7 flags0 writer0) \<and>
   writes_table (5 + 1) ref_names0 writer0 (ReferenceTypeConstant_serialize 5 refs0 writer0) \<and>
   writes_table (1 + 1) names0 writer0 (NarrowOopModeConstant_serialize 1 lookup0 writer0) \<and>
   writes_table 1 code_cache_names writer0 (CodeBlobTypeConstant_serialize 1 0 writer0)"
proof -
  have h1: "\<forall>j. j < 3 \<longrightarrow> lookup0 j = Inr (names0 j)" by (simp add: lookup0_def)
  note h2 = flags0_names
  note h3 = refs0_names
  have h4: "\<forall>j. j < 1 + 1 \<longrightarrow> lookup0 j = Inr (names0 j)" by (simp add: lookup0_def)
  have b: "INCLUDE_ALL_GCS debug_build" "COMPILER2 debug_build" by (simp_all add: debug_build_def)
  from static_table_ordinals [OF h1 h2 h3 h4,
      where w = writer0 and b = debug_build and NumTypes = 1 and All_value = 0] b
  show ?thesis by blast
qed

text \<open>
  C1 as stated fails. With \<open>2^32 + 1\<close> threads the pool of the thread-set serializer holds
  \<open>2^32 + 1\<close> entries behind the count 1.
\<close>

theorem count_field_counterexample:
  "pool_count (set_written writer0
      (JfrThreadConstantSet_serialize product_build tgid0 java10 (crowd 4294967297) []
         (writer0, env0))) = Some 1 \<and>
   pool_entries (set_written writer0
      (JfrThreadConstantSet_serialize product_build tgid0 java10 (crowd 4294967297) []
         (writer0, env0))) = 4294967297"
proof -
  from serialize_set_crowd [of 4294967297] obtain w' s' where
    r: "JfrThreadConstantSet_serialize product_build tgid0 java10 (crowd 4294967297) []
          (writer0, env0) = Inr (w', s')" by blast
  have one: "(word_of_nat (length (crowd 4294967297 @ [])) :: u4) = 1"
    unfolding length_crowd by (rule u4_wrap_1)
  then have nz: "(word_of_nat (length (crowd 4294967297 @ [])) :: u4) \<noteq> 0" by simp
  have c: "cells_from (cursor writer0) w' =
      Count 1 # concat (map (thread_entry tgid0 java10) (crowd 4294967297 @ []))"
    using serialize_set_patch(2) [OF r nz] by (simp only: one)
  have e: "pool_entries (Count 1 # concat (map (thread_entry tgid0 java10) (crowd 4294967297 @ [])))
      = 4294967297"
    unfolding pool_entries_def list.sel thread_entries_count by (rule length_crowd)
  from r c e show ?thesis by (simp add: set_written_def)
qed

text \<open>
  C1, as the code has it. Whenever the thread-set serializer emits a pool (its
  \<^verbatim>\<open>u4\<close> tally is not zero), the backpatched count is the number of entries appended
  modulo \<open>2^32\<close>, and the number itself for fewer than \<open>2^32\<close> entries. In the pool of the
  single-thread serializer and of every looping table the count written up front equals
  the number of entries appended (\<open>count_matches\<close>), and so it does in the pool of the code
  blob table when \<^verbatim>\<open>CodeBlobType::NumTypes\<close> is 1.
\<close>

theorem count_field_matches_entries:
  assumes "\<not> (ASSERT b \<and> (\<exists>t \<in> set (js @ ns). name t = None))"
    and "(word_of_nat (length (js @ ns)) :: u4) \<noteq> 0"
    and "\<not> (ASSERT b \<and> addr thread0 \<noteq> addr current)"
    and "\<forall>j. j < N \<longrightarrow> to_string j = Inr (names j)"
    and "\<forall>j. j < L + 1 \<longrightarrow> flag_value_origin_to_string (cast j) = Inr (fnames j)"
    and "\<forall>j. j < R + 1 \<longrightarrow> reference_type_to_string (rcast j) = Inr (rnames j)"
    and "\<forall>j. j < H + 1 \<longrightarrow> mode_to_string j = Inr (mnames j)"
  shows "(\<exists>w' s'. JfrThreadConstantSet_serialize b tgid current js ns (w, s) = Inr (w', s') \<and>
            pool_count (cells_from (cursor w) w')
              = Some (word_of_nat (pool_entries (cells_from (cursor w) w'))) \<and>
            pool_entries (cells_from (cursor w) w') = length (js @ ns) \<and>
            (length (js @ ns) < 2 ^ 32 \<longrightarrow> count_matches w (Inr w'))) \<and>
         count_matches w (JfrThreadConstant_serialize b tgid current thread0 w) \<and>
         count_matches w (MonitorInflateCauseConstant_serialize N to_string w) \<and>
         count_matches w (GCCauseConstant_serialize N to_string w) \<and>
         count_matches w (GCNameConstant_serialize N to_string w) \<and>
         count_matches w (GCWhenConstant_serialize N to_string w) \<and>
         count_matches w (G1HeapRegionTypeConstant_serialize N to_string w) \<and>
         count_matches w (GCThresholdUpdaterConstant_serialize N to_string w) \<and>
         count_matches w (MetadataTypeConstant_serialize N to_string w) \<and>
         count_matches w (MetaspaceObjectTypeConstant_serialize N to_string w) \<and>
         count_matches w (VMOperationTypeConstant_serialize N to_string w) \<and>
         (INCLUDE_ALL_GCS b \<longrightarrow> count_matches w (G1YCTypeConstant_serialize b N to_string w)) \<and>
         (COMPILER2 b \<longrightarrow> count_matches w (CompilerPhaseTypeConstant_serialize b N to_string w)) \<and>
         count_matches w (FlagValueOriginConstant_serialize L cast w) \<and>
         count_matches w (ReferenceTypeConstant_serialize R rcast w) \<and>
         count_matches w (NarrowOopModeConstant_serialize H mode_to_string w) \<and>
         (NumTypes = 1 \<longrightarrow>
            count_matches w (CodeBlobTypeConstant_serialize NumTypes All_value w))"
proof -
  have ts: "\<exists>w' s'. JfrThreadConstantSet_serialize b tgid current js ns (w, s) = Inr (w', s') \<and>
            pool_count (cells_from (cursor w) w')
              = Some (word_of_nat (pool_entries (cells_from (cursor w) w'))) \<and>
            pool_entries (cells_from (cursor w) w') = length (js @ ns) \<and>
            (length (js @ ns) < 2 ^ 32 \<longrightarrow> count_matches w (Inr w'))"
  proof -
    from serialize_set_total [OF assms(1)] obtain w' s' where
      r: "JfrThreadConstantSet_serialize b tgid current js ns (w, s) = Inr (w', s')" by blast
    note c = serialize_set_patch(2) [OF r assms(2)]
    have e: "pool_entries (cells_from (cursor w) w') = length (js @ ns)"
      unfolding c pool_entries_def list.sel by (rule thread_entries_count)
    have p: "pool_count (cells_from (cursor w) w') = Some (word_of_nat (length (js @ ns)))"
      unfolding c by simp
    have m: "length (js @ ns) < 2 ^ 32 \<longrightarrow> count_matches w (Inr w')"
      using p e u4_unat_of_nat [of "length (js @ ns)"] by (simp add: count_matches_def)
    from r p e m show ?thesis by simp
  qed
  have self: "count_matches w (JfrThreadConstant_serialize b tgid current thread0 w)"
  proof -
    from self_serialize_Inr [OF assms(3), of tgid w] obtain w' where
      r: "JfrThreadConstant_serialize b tgid current thread0 w = Inr w'" and
      c: "cells_from (cursor w) w' = self_fields tgid thread0" by blast
    show ?thesis using r c
      by (simp add: count_matches_def self_fields_def pool_entries_def thread_entry_def)
  qed
  note t = serialize_table_count_matches [OF assms(4), of w]
  have c0: "count_matches w (MonitorInflateCauseConstant_serialize N to_string w)"
    unfolding MonitorInflateCauseConstant_serialize_def by (rule t)
  have c1: "count_matches w (GCCauseConstant_serialize N to_string w)"
    unfolding GCCauseConstant_serialize_def by (rule t)
  have c2: "count_matches w (GCNameConstant_serialize N to_string w)"
    unfolding GCNameConstant_serialize_def by (rule t)
  have c3: "count_matches w (GCWhenConstant_serialize N to_string w)"
    unfolding GCWhenConstant_serialize_def by (rule t)
  have c4: "count_matches w (G1HeapRegionTypeConstant_serialize N to_string w)"
    unfolding G1HeapRegionTypeConstant_serialize_def by (rule t)
  have c5: "count_matches w (GCThresholdUpdaterConstant_serialize N to_string w)"
    unfolding GCThresholdUpdaterConstant_serialize_def by (rule t)
  have c6: "count_matches w (MetadataTypeConstant_serialize N to_string w)"
    unfolding MetadataTypeConstant_serialize_def by (rule t)
  have c7: "count_matches w (MetaspaceObjectTypeConstant_serialize N to_string w)"
    unfolding MetaspaceObjectTypeConstant_serialize_def by (rule t)
  have c8: "count_matches w (VMOperationTypeConstant_serialize N to_string w)"
    unfolding VMOperationTypeConstant_serialize_def by (rule t)
  have g1: "(INCLUDE_ALL_GCS b \<longrightarrow> count_matches w (G1YCTypeConstant_serialize b N to_string w))"
    using t by (simp add: G1YCTypeConstant_serialize_def)
  have g2: "(COMPILER2 b \<longrightarrow> count_matches w (CompilerPhaseTypeConstant_serialize b N to_string w))"
    using t by (simp add: CompilerPhaseTypeConstant_serialize_def)
  have p1: "count_matches w (FlagValueOriginConstant_serialize L cast w)"
    unfolding FlagValueOriginConstant_serialize_def by (rule serialize_table_count_matches [OF assms(5)])
  have p2: "count_matches w (ReferenceTypeConstant_serialize R rcast w)"
    unfolding ReferenceTypeConstant_serialize_def by (rule serialize_table_count_matches [OF assms(6)])
  have p3: "count_matches w (NarrowOopModeConstant_serialize H mode_to_string w)"
    unfolding NarrowOopModeConstant_serialize_def by (rule serialize_table_count_matches [OF assms(7)])
  have cb: "NumTypes = 1 \<longrightarrow>
            count_matches w (CodeBlobTypeConstant_serialize NumTypes All_value w)"
  proof -
    from code_blob_cells [of NumTypes All_value w] obtain w' where
      r: "CodeBlobTypeConstant_serialize NumTypes All_value w = Inr w'" and
      c: "cells_from (cursor w) w' = [Count NumTypes, Key (ucast All_value), Str (Some ''CodeCache'')]"
      by blast
    show ?thesis
    proof
      assume "NumTypes = 1"
      with r c show "count_matches w (CodeBlobTypeConstant_serialize NumTypes All_value w)"
        by (simp add: count_matches_def pool_entries_def)
    qed
  qed
  from ts self c0 c1 c2 c3 c4 c5 c6 c7 c8 g1 g2 p1 p2 p3 cb show ?thesis by blast
qed

theorem count_field_matches_entries_witness:
  "(\<exists>w' s'. JfrThreadConstantSet_serialize debug_build tgid0 java10 [java10, java11] [native5]
              (writer0, env0) = Inr (w', s') \<and>
        pool_count (cells_from (cursor writer0) w') = Some 3 \<and>
        pool_entries (cells_from (cursor writer0) w') = 3 \<and>
        count_matches writer0 (Inr w')) \<and>
   count_matches writer0 (JfrThreadConstant_serialize debug_build tgid0 java10 java10 writer0) \<and>
   count_matches writer0 (MonitorInflateCauseConstant_serialize 3 lookup0 writer0) \<and>
   count_matches writer0 (GCCauseConstant_serialize 3 lookup0 writer0) \<and>
   count_matches writer0 (GCNameConstant_serialize 3 lookup0 writer0) \<and>
   count_matches writer0 (GCWhenConstant_serialize 3 lookup0 writer0) \<and>
   count_matches writer0 (G1HeapRegionTypeConstant_serialize 3 lookup0 writer0) \<and>
   count_matches writer0 (GCThresholdUpdaterConstant_serialize 3 lookup0 writer0) \<and>
   count_matches writer0 (MetadataTypeConstant_serialize 3 lookup0 writer0) \<and>
   count_matches writer0 (MetaspaceObjectTypeConstant_serialize 3 lookup0 writer0) \<and>
   count_matches writer0 (VMOperationTypeConstant_serialize 3 lookup0 writer0) \<and>
   count_matches writer0 (G1YCTypeConstant_serialize debug_build 3 lookup0 writer0) \<and>
   count_matches writer0 (CompilerPhaseTypeConstant_serialize debug_build 3 lookup0 writer0) \<and>
   count_matches writer0 (FlagValueOriginConstant_serialize 7 flags0 writer0) \<and>
   count_matches writer0 (ReferenceTypeConstant_serialize 5 refs0 writer0) \<and>
   count_matches writer0 (NarrowOopModeConstant_serialize 1 lookup0 writer0) \<and>
   count_matches writer0 (CodeBlobTypeConstant_serialize 1 0 writer0)"
proof -
  have a1: "\<not> (ASSERT debug_build \<and> (\<exists>t \<in> set ([java10, java11] @ [native5]). name t = None))"
    by (simp add: java10_def java11_def native5_def)
  have a2: "(word_of_nat (length ([java10, java11] @ [native5])) :: u4) \<noteq> 0" by simp
  have a3: "\<not> (ASSERT debug_build \<and> addr java10 \<noteq> addr java10)" by simp
  have h1: "\<forall>j. j < 3 \<longrightarrow> lookup0 j = Inr (names0 j)" by (simp add: lookup0_def)
  note h2 = flags0_names
  note h3 = refs0_names
  have h4: "\<forall>j. j < 1 + 1 \<longrightarrow> lookup0 j = Inr (names0 j)" by (simp add: lookup0_def)
  have b: "INCLUDE_ALL_GCS debug_build" "COMPILER2 debug_build" by (simp_all add: debug_build_def)
  note T = count_field_matches_entries [OF a1 a2 a3 h1 h2 h3 h4,
      where tgid = tgid0 and w = writer0 and s = env0 and NumTypes = 1 and All_value = 0]
  from T obtain w' s' where
    r: "JfrThreadConstantSet_serialize debug_build tgid0 java10 [java10, java11] [native5]
              (writer0, env0) = Inr (w', s')" and
    e: "pool_entries (cells_from (cursor writer0) w') = length ([java10, java11] @ [native5])" and
    p: "pool_count (cells_from (cursor writer0) w')
              = Some (word_of_nat (pool_entries (cells_from (cursor writer0) w')))" and
    m: "length ([java10, java11] @ [native5]) < 2 ^ 32 \<longrightarrow> count_matches writer0 (Inr w')"
    by blast
  from e have e3: "pool_entries (cells_from (cursor writer0) w') = 3" by simp
  from p e3 have p3: "pool_count (cells_from (cursor writer0) w') = Some 3" by simp
  from m have m3: "count_matches writer0 (Inr w')" by simp
  from r e3 p3 m3 have first: "\<exists>w' s'. JfrThreadConstantSet_serialize debug_build tgid0 java10
        [java10, java11] [native5] (writer0, env0) = Inr (w', s') \<and>
        pool_count (cells_from (cursor writer0) w') = Some 3 \<and>
        pool_entries (cells_from (cursor writer0) w') = 3 \<and>
        count_matches writer0 (Inr w')" by blast
  from T b first show ?thesis by blast
qed

end
